theory Spec2Isabelle
  imports Complex_Main "HOL-Library.Word" "HOL-Library.Log_Nat"
begin

section \<open>Python numbers used by server.py\<close>

text \<open>
  The program computes its USD figures with Python \<open>float\<close> (IEEE binary64, round to
  nearest, ties to even) and with \<open>decimal.Decimal\<close> (default context: 28 significant
  digits, \<open>ROUND_HALF_EVEN\<close>). A finite float or Decimal is modelled by the real number
  it denotes, and every operation rounds its exact result as the Python operation does.
  The sign of a zero is not modelled.
\<close>

datatype pyfloat = Finite real | PosInf | NegInf | NaN

definition pow :: "nat \<Rightarrow> int \<Rightarrow> real" where
  "pow b e = (if 0 \<le> e then of_nat b ^ nat e else 1 / of_nat b ^ nat (- e))"

definition round_half_even :: "real \<Rightarrow> int" where
  "round_half_even x =
     (if x - of_int \<lfloor>x\<rfloor> < 1 / 2 then \<lfloor>x\<rfloor>
      else if 1 / 2 < x - of_int \<lfloor>x\<rfloor> then \<lfloor>x\<rfloor> + 1
      else if even \<lfloor>x\<rfloor> then \<lfloor>x\<rfloor> else \<lfloor>x\<rfloor> + 1)"

text \<open>\<open>ilog b x\<close> is the integer \<open>e\<close> with \<open>b ^ e \<le> x < b ^ (e + 1)\<close>, for \<open>0 < x\<close>;
  \<open>floorlog b n\<close> is the number of base-\<open>b\<close> digits of \<open>n\<close>.\<close>

definition ilog :: "nat \<Rightarrow> real \<Rightarrow> int" where
  "ilog b x =
     (if 1 \<le> x then int (floorlog b (nat \<lfloor>x\<rfloor>)) - 1
      else - int (floorlog b (nat (\<lceil>1 / x\<rceil> - 1))))"

definition round_to_unit :: "real \<Rightarrow> real \<Rightarrow> real" where
  "round_to_unit u x = of_int (round_half_even (x / u)) * u"

text \<open>Rounding a real to binary64: 53 significant bits, least exponent \<open>-1022\<close> (below it
  the spacing stays \<open>2 ^ -1074\<close>), overflow to an infinity from \<open>2 ^ 1024\<close> on.\<close>

definition to_double :: "real \<Rightarrow> pyfloat" where
  "to_double x =
     (if x = 0 then Finite 0
      else if pow 2 1024 \<le> \<bar>round_to_unit (pow 2 (max (ilog 2 \<bar>x\<bar>) (- 1022) - 52)) x\<bar>
      then (if 0 < x then PosInf else NegInf)
      else Finite (round_to_unit (pow 2 (max (ilog 2 \<bar>x\<bar>) (- 1022) - 52)) x))"

text \<open>Rounding a real to \<open>prec\<close> significant decimal digits (a Decimal operation in a
  context of that precision).\<close>

definition decimal_round :: "nat \<Rightarrow> real \<Rightarrow> real" where
  "decimal_round prec x =
     (if x = 0 then 0 else round_to_unit (pow 10 (ilog 10 \<bar>x\<bar> - (int prec - 1))) x)"

text \<open>\<open>a * b\<close> on floats.\<close>

fun fmul :: "pyfloat \<Rightarrow> pyfloat \<Rightarrow> pyfloat" where
  "fmul (Finite a) (Finite b) = to_double (a * b)"
| "fmul NaN _ = NaN"
| "fmul _ NaN = NaN"
| "fmul (Finite a) PosInf = (if a = 0 then NaN else if 0 < a then PosInf else NegInf)"
| "fmul (Finite a) NegInf = (if a = 0 then NaN else if 0 < a then NegInf else PosInf)"
| "fmul PosInf (Finite b) = (if b = 0 then NaN else if 0 < b then PosInf else NegInf)"
| "fmul NegInf (Finite b) = (if b = 0 then NaN else if 0 < b then NegInf else PosInf)"
| "fmul PosInf PosInf = PosInf"
| "fmul PosInf NegInf = NegInf"
| "fmul NegInf PosInf = NegInf"
| "fmul NegInf NegInf = PosInf"

text \<open>\<open>a - b\<close> on finite floats, and the comparisons of a float with an \<open>int\<close>
  constant, which Python decides exactly.\<close>

definition fsub :: "real \<Rightarrow> real \<Rightarrow> pyfloat" where
  "fsub a b = to_double (a - b)"

fun float_less :: "pyfloat \<Rightarrow> int \<Rightarrow> bool" where
  "float_less (Finite a) n = (a < of_int n)"
| "float_less NegInf n = True"
| "float_less PosInf n = False"
| "float_less NaN n = False"

fun float_ge :: "pyfloat \<Rightarrow> int \<Rightarrow> bool" where
  "float_ge (Finite a) n = (of_int n \<le> a)"
| "float_ge PosInf n = True"
| "float_ge NegInf n = False"
| "float_ge NaN n = False"

text \<open>\<open>int(x)\<close> on a finite float truncates towards zero.\<close>

definition py_int :: "real \<Rightarrow> int" where
  "py_int x = (if 0 \<le> x then \<lfloor>x\<rfloor> else \<lceil>x\<rceil>)"

section \<open>Chain values\<close>

type_synonym address = string
type_synonym uint256 = "256 word"
type_synonym txhash = string

text \<open>\<open>Web3.from_wei(number, "ether")\<close> returns the \<open>int\<close> 0 for 0 and otherwise the
  Decimal \<open>number / 10 ^ 18\<close>, computed exactly (precision 999). Its range check
  \<open>0 \<le> number \<le> 2 ^ 256 - 1\<close> holds for every \<open>uint256\<close>.\<close>

datatype wei_value = Int_zero | Dec real

definition from_wei :: "uint256 \<Rightarrow> wei_value" where
  "from_wei number = (if number = 0 then Int_zero else Dec (of_nat (unat number) / 10 ^ 18))"

text \<open>\<open>float(...)\<close> of such a number.\<close>

fun py_float :: "wei_value \<Rightarrow> pyfloat" where
  "py_float Int_zero = Finite 0"
| "py_float (Dec d) = to_double d"

text \<open>\<open>1 / tokens_per_mon if tokens_per_mon else 0\<close>: the int 0 and a zero Decimal are
  false, the division is a Decimal division in the default context, and the \<open>else\<close> branch
  gives the int 0.\<close>

fun reciprocal_or_zero :: "wei_value \<Rightarrow> wei_value" where
  "reciprocal_or_zero Int_zero = Int_zero"
| "reciprocal_or_zero (Dec d) = (if d \<noteq> 0 then Dec (decimal_round 28 (1 / d)) else Int_zero)"

section \<open>Configuration\<close>

definition RPC_URL :: string where "RPC_URL = ''https://rpc.monad.xyz''"
definition POLL_INTERVAL :: nat where "POLL_INTERVAL = 7"
definition TCG_SELL_AT :: int where "TCG_SELL_AT = 900000"
definition MON_PRICE_TTL :: int where "MON_PRICE_TTL = 60"
definition ONE_MON :: nat where "ONE_MON = 10 ^ 18"

definition TCG :: address where "TCG = ''0x94CF69B5b13E621cB11f5153724AFb58c7337777''"
definition FIRE :: address where "FIRE = ''0xCE1C9994331e1fd8E3B751De9Cf50c322BCb7777''"
definition MONA :: address where "MONA = ''0x2CB31c268819EE133De378A3A2E087F0b0eC7777''"

text \<open>The dict \<open>TOKENS\<close>, in insertion order (the order \<open>items()\<close> iterates in).\<close>

definition TOKENS :: "(string \<times> address) list" where
  "TOKENS = [(''TCG'', TCG), (''FIRE'', FIRE), (''MONA'', MONA)]"

section \<open>Effects\<close>

text \<open>
  Every call that leaves the process (JSON-RPC, HTTP), every \<open>print\<close>, every
  \<open>time.sleep\<close> and every entry into \<open>sell_all_tcg\<close> is recorded, in program order,
  in a trace. What the outside world answers is an input of the model: one field per call
  site, holding the value returned or the exception raised there.
\<close>

datatype error = Exception string

record receipt =
  status :: nat

datatype tx =
    Approve_tx (token: address) (spender: address) (amount: nat)
               (sender: address) (nonce: nat) (chainId: nat) (gas: nat) (gasPrice: nat)
  | Sell_tx (router: address) (amountIn: nat) (amountOutMin: nat) (token: address)
            (recipient: address) (deadline: int)
            (sender: address) (nonce: nat) (chainId: nat) (gas: nat) (gasPrice: nat)

datatype call =
    Lens_getAmountOut address nat bool
  | Erc20_totalSupply address
  | Erc20_balanceOf address address
  | Eth_chain_id
  | Eth_get_transaction_count address
  | Eth_gas_price
  | Eth_send_raw_transaction tx
  | Eth_wait_for_transaction_receipt txhash
  | Eth_block_number
  | Http_get string

datatype outcome =
    Raised error
  | Returned_uint nat
  | Returned_quote address nat
  | Returned_hash txhash
  | Returned_receipt receipt
  | Returned_price real

datatype message =
    Msg_connected nat
  | Msg_wallet address
  | Msg_price_warning real error
  | Msg_cycle real
  | Msg_snapshot string pyfloat pyfloat
  | Msg_trigger pyfloat
  | Msg_attempt_failed nat error
  | Msg_all_attempts_failed
  | Msg_token_error string error
  | Msg_blank
  | Msg_nothing_to_sell
  | Msg_approving address nat
  | Msg_approved txhash
  | Msg_selling nat nat
  | Msg_sold txhash

datatype event =
    Call call outcome
  | Print message
  | Sleep nat
  | Enter_sell_all_tcg

type_synonym 'a io = "(error + 'a) \<times> event list"

definition io_return :: "'a \<Rightarrow> 'a io" where
  "io_return x = (Inr x, [])"

definition io_bind :: "'a io \<Rightarrow> ('a \<Rightarrow> 'b io) \<Rightarrow> 'b io" where
  "io_bind m f =
     (case m of
        (Inl e, tr) \<Rightarrow> (Inl e, tr)
      | (Inr x, tr) \<Rightarrow> (case f x of (r, tr') \<Rightarrow> (r, tr @ tr')))"

text \<open>\<open>try: m except Exception: h\<close>.\<close>

definition io_try :: "'a io \<Rightarrow> (error \<Rightarrow> 'a io) \<Rightarrow> 'a io" where
  "io_try m h =
     (case m of
        (Inl e, tr) \<Rightarrow> (case h e of (r, tr') \<Rightarrow> (r, tr @ tr'))
      | (Inr x, tr) \<Rightarrow> (Inr x, tr))"

definition io_emit :: "event \<Rightarrow> unit io" where
  "io_emit ev = (Inr (), [ev])"

text \<open>An outside call \<open>c\<close> whose answer is \<open>r\<close>; \<open>shw\<close> is how the answer is recorded.\<close>

definition extern :: "call \<Rightarrow> ('a \<Rightarrow> outcome) \<Rightarrow> error + 'a \<Rightarrow> 'a io" where
  "extern c shw r = (r, [Call c (case r of Inl e \<Rightarrow> Raised e | Inr v \<Rightarrow> shw v)])"

definition show_uint :: "uint256 \<Rightarrow> outcome" where
  "show_uint v = Returned_uint (unat v)"

definition show_quote :: "address \<times> uint256 \<Rightarrow> outcome" where
  "show_quote q = Returned_quote (fst q) (unat (snd q))"

section \<open>get_mon_usd_price\<close>

text \<open>
  \<open>binance\<close> and \<open>coingecko\<close> are the outcomes of the two fetches: the GET (5 s timeout),
  \<open>raise_for_status\<close> and the parse of the payload to a float, which a working feed
  delivers as a finite number. The three \<open>time_\<close> fields are what \<open>time.time()\<close> returns
  at the TTL test and at the two places the cache is written.
\<close>

record price_env =
  time_check :: real
  binance :: "error + real"
  time_binance :: real
  coingecko :: "error + real"
  time_coingecko :: real

definition BINANCE_URL :: string where
  "BINANCE_URL = ''https://api.binance.com/api/v3/ticker/price''"

definition COINGECKO_URL :: string where
  "COINGECKO_URL = ''https://api.coingecko.com/api/v3/simple/price''"

text \<open>The test \<open>time.time() - fetched_at < MON_PRICE_TTL\<close>.\<close>

definition cache_fresh :: "real \<times> real \<Rightarrow> real \<Rightarrow> bool" where
  "cache_fresh cache now = float_less (fsub now (snd cache)) MON_PRICE_TTL"

text \<open>The global \<open>_mon_usd_cache\<close> is passed in and, on a normal return, passed out
  with the price; an exception leaves it as it was.\<close>

definition get_mon_usd_price :: "real \<times> real \<Rightarrow> price_env \<Rightarrow> (real \<times> (real \<times> real)) io" where
  "get_mon_usd_price cache w =
     (if cache_fresh cache (time_check w) then io_return (fst cache, cache)
      else
        io_try
          (io_bind (extern (Http_get BINANCE_URL) Returned_price (binance w))
             (\<lambda>price. io_return (price, (price, time_binance w))))
          (\<lambda>_.
            io_bind (extern (Http_get COINGECKO_URL) Returned_price (coingecko w))
              (\<lambda>price. io_return (price, (price, time_coingecko w)))))"

section \<open>fetch_price\<close>

record market_env =
  buy_quote :: "error + address \<times> uint256"
  total_supply :: "error + uint256"
  wallet_balance :: "error + uint256"

text \<open>The two USD figures of a snapshot from the three chain values.\<close>

definition market_cap_usd :: "uint256 \<Rightarrow> uint256 \<Rightarrow> real \<Rightarrow> pyfloat" where
  "market_cap_usd amount_out total_supply_raw mon_usd =
     fmul (fmul (py_float (reciprocal_or_zero (from_wei amount_out)))
                (py_float (from_wei total_supply_raw)))
          (Finite mon_usd)"

definition wallet_balance_usd :: "uint256 \<Rightarrow> uint256 \<Rightarrow> real \<Rightarrow> pyfloat" where
  "wallet_balance_usd amount_out balance_raw mon_usd =
     fmul (fmul (py_float (from_wei balance_raw))
                (py_float (reciprocal_or_zero (from_wei amount_out))))
          (Finite mon_usd)"

definition fetch_price :: "address \<Rightarrow> string \<Rightarrow> address \<Rightarrow> real \<Rightarrow> market_env \<Rightarrow> pyfloat io" where
  "fetch_price wallet symbol token_address mon_usd w =
     io_bind (extern (Lens_getAmountOut token_address ONE_MON True) show_quote (buy_quote w))
       (\<lambda>(_, amount_out).
     io_bind (extern (Erc20_totalSupply token_address) show_uint (total_supply w))
       (\<lambda>total_supply_raw.
     io_bind (extern (Erc20_balanceOf token_address wallet) show_uint (wallet_balance w))
       (\<lambda>balance_raw.
     io_bind (io_emit (Print (Msg_snapshot symbol
                (market_cap_usd amount_out total_supply_raw mon_usd)
                (wallet_balance_usd amount_out balance_raw mon_usd))))
       (\<lambda>_. io_return (market_cap_usd amount_out total_supply_raw mon_usd)))))"

section \<open>sell_all_tcg\<close>

text \<open>
  One field per outside call of \<open>sell_all_tcg\<close>, in the order the calls are made; a field
  is consulted only if the run gets that far. \<open>clock\<close> is \<open>time.time()\<close> at the deadline
  computation. A receipt is returned for a mined transaction whether it succeeded or
  reverted; the code does not look at it.
\<close>

record sell_env =
  tcg_balance :: "error + uint256"
  sell_quote :: "error + address \<times> uint256"
  chain_id :: "error + nat"
  clock :: real
  nonce_for_approve :: "error + nat"
  gas_price_for_approve :: "error + nat"
  approve_sent :: "error + txhash"
  approve_receipt :: "error + receipt"
  nonce_for_sell :: "error + nat"
  gas_price_for_sell :: "error + nat"
  sell_sent :: "error + txhash"
  sell_receipt :: "error + receipt"

text \<open>\<open>int(mon_out * 95 // 100)\<close> on Python's unbounded integers.\<close>

definition amount_out_min_of :: "nat \<Rightarrow> nat" where
  "amount_out_min_of mon_out = mon_out * 95 div 100"

text \<open>Signing is local and deterministic, so a raw transaction is identified with the
  transaction dict it was built from.\<close>

definition sell_all_tcg :: "address \<Rightarrow> sell_env \<Rightarrow> unit io" where
  "sell_all_tcg wallet w =
     io_bind (io_emit Enter_sell_all_tcg)
       (\<lambda>_.
     io_bind (extern (Erc20_balanceOf TCG wallet) show_uint (tcg_balance w))
       (\<lambda>balance.
     if balance = 0 then io_emit (Print Msg_nothing_to_sell)
     else
     io_bind (extern (Lens_getAmountOut TCG (unat balance) False) show_quote (sell_quote w))
       (\<lambda>(router_address, mon_out).
     io_bind (extern Eth_chain_id Returned_uint (chain_id w))
       (\<lambda>chain_id.
     io_bind (io_emit (Print (Msg_approving router_address (unat balance))))
       (\<lambda>_.
     io_bind (extern (Eth_get_transaction_count wallet) Returned_uint (nonce_for_approve w))
       (\<lambda>approve_nonce.
     io_bind (extern Eth_gas_price Returned_uint (gas_price_for_approve w))
       (\<lambda>approve_gas_price.
     io_bind (extern (Eth_send_raw_transaction
                (Approve_tx TCG router_address (unat balance)
                   wallet approve_nonce chain_id 100000 approve_gas_price))
                Returned_hash (approve_sent w))
       (\<lambda>approve_hash.
     io_bind (extern (Eth_wait_for_transaction_receipt approve_hash) Returned_receipt
                (approve_receipt w))
       (\<lambda>_.
     io_bind (io_emit (Print (Msg_approved approve_hash)))
       (\<lambda>_.
     io_bind (io_emit (Print (Msg_selling (unat balance) (amount_out_min_of (unat mon_out)))))
       (\<lambda>_.
     io_bind (extern (Eth_get_transaction_count wallet) Returned_uint (nonce_for_sell w))
       (\<lambda>sell_nonce.
     io_bind (extern Eth_gas_price Returned_uint (gas_price_for_sell w))
       (\<lambda>sell_gas_price.
     io_bind (extern (Eth_send_raw_transaction
                (Sell_tx router_address (unat balance) (amount_out_min_of (unat mon_out)) TCG
                   wallet (py_int (clock w) + 300)
                   wallet sell_nonce chain_id 200000 sell_gas_price))
                Returned_hash (sell_sent w))
       (\<lambda>sell_hash.
     io_bind (extern (Eth_wait_for_transaction_receipt sell_hash) Returned_receipt
                (sell_receipt w))
       (\<lambda>_. io_emit (Print (Msg_sold sell_hash)))))))))))))))))"

section \<open>main\<close>

text \<open>The variables that live across iterations of the polling loop: the locals
  \<open>tcg_sold\<close> and \<open>mon_usd\<close> of \<open>main\<close>, and the global cache.\<close>

record state =
  tcg_sold :: bool
  mon_usd :: real
  mon_usd_cache :: "real \<times> real"

definition initial_state :: state where
  "initial_state = \<lparr>tcg_sold = False, mon_usd = 0, mon_usd_cache = (0, 0)\<rparr>"

text \<open>What the outside world answers during one iteration: to the price fetch, to the
  snapshot read of each symbol, and to each of the sell attempts 1, 2, 3.\<close>

record cycle_env =
  price_w :: price_env
  market_w :: "string \<Rightarrow> market_env"
  sell_w :: "nat \<Rightarrow> sell_env"

text \<open>The price refresh at the head of an iteration: on an exception a warning is
  printed and \<open>mon_usd\<close> keeps its last value.\<close>

definition refresh_price :: "state \<Rightarrow> cycle_env \<Rightarrow> state \<times> event list" where
  "refresh_price s w =
     (case get_mon_usd_price (mon_usd_cache s) (price_w w) of
        (Inr (price, cache), tr) \<Rightarrow> (s\<lparr>mon_usd := price, mon_usd_cache := cache\<rparr>, tr)
      | (Inl exc, tr) \<Rightarrow> (s, tr @ [Print (Msg_price_warning (mon_usd s) exc)]))"

text \<open>The loop \<open>for attempt in range(1, 4)\<close>, entered with \<open>tcg_sold\<close> false; the result
  is the value of \<open>tcg_sold\<close> when the loop is left.\<close>

fun sell_attempts :: "address \<Rightarrow> (nat \<Rightarrow> sell_env) \<Rightarrow> nat list \<Rightarrow> bool \<times> event list" where
  "sell_attempts wallet w [] = (False, [])"
| "sell_attempts wallet w (attempt # rest) =
     (case sell_all_tcg wallet (w attempt) of
        (Inr _, tr) \<Rightarrow> (True, tr)
      | (Inl sell_exc, tr) \<Rightarrow>
          (case sell_attempts wallet w rest of
             (sold, tr') \<Rightarrow>
               (sold,
                tr @ [Print (Msg_attempt_failed attempt sell_exc)]
                   @ (if attempt < 3 then [Sleep 3] else []) @ tr')))"

text \<open>The body of \<open>for symbol, address in TOKENS.items()\<close>.\<close>

definition process_token :: "address \<Rightarrow> cycle_env \<Rightarrow> state \<Rightarrow> string \<times> address \<Rightarrow> state \<times> event list" where
  "process_token wallet w s item =
     (case fetch_price wallet (fst item) (snd item) (mon_usd s) (market_w w (fst item)) of
        (Inl exc, tr) \<Rightarrow> (s, tr @ [Print (Msg_token_error (fst item) exc)])
      | (Inr mcap, tr) \<Rightarrow>
          if fst item = ''TCG'' \<and> \<not> tcg_sold s \<and> float_ge mcap TCG_SELL_AT then
            (case sell_attempts wallet (sell_w w) [1, 2, 3] of
               (sold, tr') \<Rightarrow>
                 (s\<lparr>tcg_sold := sold\<rparr>,
                  tr @ [Print (Msg_trigger mcap)] @ tr'
                     @ (if \<not> sold then [Print Msg_all_attempts_failed] else [])))
          else (s, tr))"

fun for_tokens :: "address \<Rightarrow> cycle_env \<Rightarrow> state \<Rightarrow> (string \<times> address) list \<Rightarrow> state \<times> event list" where
  "for_tokens wallet w s [] = (s, [])"
| "for_tokens wallet w s (item # items) =
     (case process_token wallet w s item of
        (s', tr) \<Rightarrow>
          (case for_tokens wallet w s' items of (s'', tr') \<Rightarrow> (s'', tr @ tr')))"

text \<open>One iteration of \<open>while True\<close>. No exception leaves it: every statement that can
  raise sits in a \<open>try\<close> whose handler only prints.\<close>

definition cycle :: "address \<Rightarrow> state \<Rightarrow> cycle_env \<Rightarrow> state \<times> event list" where
  "cycle wallet s w =
     (case refresh_price s w of
        (s1, tr1) \<Rightarrow>
          (case for_tokens wallet w s1 TOKENS of
             (s2, tr2) \<Rightarrow>
               (s2, tr1 @ [Print (Msg_cycle (mon_usd s1))] @ tr2
                        @ [Print Msg_blank, Sleep POLL_INTERVAL])))"

text \<open>The loop has no exit, so an execution is an infinite sequence of iterations;
  \<open>run\<close> gives its first \<open>length ws\<close> iterations, \<open>ws\<close> being what the world answers in
  each of them.\<close>

fun run :: "address \<Rightarrow> state \<Rightarrow> cycle_env list \<Rightarrow> state \<times> event list" where
  "run wallet s [] = (s, [])"
| "run wallet s (w # ws) =
     (case cycle wallet s w of
        (s', tr) \<Rightarrow> (case run wallet s' ws of (s'', tr') \<Rightarrow> (s'', tr @ tr')))"

record startup_env =
  is_connected :: bool
  block_number :: "error + nat"

text \<open>\<open>main\<close>: the \<open>ConnectionError\<close> carries the RPC URL in its message; a reachable
  node is asked for its block number, the two start-up lines are printed and the loop is
  entered with \<open>tcg_sold = False\<close> and \<open>mon_usd = 0.0\<close>.\<close>

definition main :: "address \<Rightarrow> startup_env \<Rightarrow> cycle_env list \<Rightarrow> state io" where
  "main wallet w0 ws =
     (if \<not> is_connected w0 then (Inl (Exception (''Cannot connect to RPC: '' @ RPC_URL)), [])
      else
        io_bind (extern Eth_block_number Returned_uint (block_number w0))
          (\<lambda>n.
        io_bind (io_emit (Print (Msg_connected n)))
          (\<lambda>_.
        io_bind (io_emit (Print (Msg_wallet wallet)))
          (\<lambda>_. case run wallet initial_state ws of (s, tr) \<Rightarrow> (Inr s, tr)))))"

section \<open>Observations on traces\<close>

text \<open>An event of the sell executor: its invocation, or a transaction it submits.\<close>

fun sell_activity :: "event \<Rightarrow> bool" where
  "sell_activity Enter_sell_all_tcg = True"
| "sell_activity (Call (Eth_send_raw_transaction t) out) = True"
| "sell_activity _ = False"

text \<open>The events of the retry loop: an invocation of the executor and the back-off
  sleep.\<close>

definition attempt_event :: "event \<Rightarrow> bool" where
  "attempt_event ev = (ev = Enter_sell_all_tcg \<or> ev = Sleep 3)"

text \<open>Reads and prints: everything but transactions, sleeps and executor entries.\<close>

fun quiet :: "event \<Rightarrow> bool" where
  "quiet (Call (Eth_send_raw_transaction t) out) = False"
| "quiet (Call c out) = True"
| "quiet (Print msg) = True"
| "quiet (Sleep n) = False"
| "quiet Enter_sell_all_tcg = False"

text \<open>The submission of a transaction.\<close>

fun submission :: "event \<Rightarrow> bool" where
  "submission (Call (Eth_send_raw_transaction t) out) = True"
| "submission _ = False"

text \<open>The market-cap part of the trigger test \<open>mcap >= TCG_SELL_AT\<close> of an iteration
  that starts in state \<open>s\<close>: the TCG snapshot is read without an exception and its market
  cap is at or above the threshold.\<close>

definition reading_meets_threshold :: "address \<Rightarrow> state \<Rightarrow> cycle_env \<Rightarrow> bool" where
  "reading_meets_threshold wallet s w =
     (case fst (fetch_price wallet ''TCG'' TCG (mon_usd (fst (refresh_price s w)))
                  (market_w w ''TCG'')) of
        Inr mcap \<Rightarrow> float_ge mcap TCG_SELL_AT
      | Inl _ \<Rightarrow> False)"

text \<open>Attempt \<open>n\<close> of an iteration succeeds when its run of \<open>sell_all_tcg\<close> returns
  without an exception.\<close>

definition attempt_succeeds :: "address \<Rightarrow> cycle_env \<Rightarrow> nat \<Rightarrow> bool" where
  "attempt_succeeds wallet w n =
     (case fst (sell_all_tcg wallet (sell_w w n)) of Inr _ \<Rightarrow> True | Inl _ \<Rightarrow> False)"

text \<open>The invocations and back-off sleeps of a bounded retry that stops at the first
  success.\<close>

definition attempts_made :: "address \<Rightarrow> cycle_env \<Rightarrow> event list" where
  "attempts_made wallet w =
     (if attempt_succeeds wallet w 1 then [Enter_sell_all_tcg]
      else if attempt_succeeds wallet w 2 then [Enter_sell_all_tcg, Sleep 3, Enter_sell_all_tcg]
      else [Enter_sell_all_tcg, Sleep 3, Enter_sell_all_tcg, Sleep 3, Enter_sell_all_tcg])"

text \<open>\<open>y\<close> lies between \<open>l * x\<close> and \<open>h * x\<close>: how far a rounded value is from the
  exact one.\<close>

definition bracketed :: "real \<Rightarrow> real \<Rightarrow> real \<Rightarrow> real \<Rightarrow> bool" where
  "bracketed l h x y = (l * x \<le> y \<and> y \<le> h * x)"

section \<open>Scenarios\<close>

text \<open>Concrete answers of the outside world, used to run the model.\<close>

text \<open>The float that \<open>float("125.40")\<close> is.\<close>

definition usd_125_40 :: real where
  "usd_125_40 = 4412120259939533 / 35184372088832"

definition live_feed :: price_env where
  "live_feed = \<lparr>time_check = 1700000000, binance = Inr usd_125_40, time_binance = 1700000001,
                 coingecko = Inl (Exception ''not asked''), time_coingecko = 1700000002\<rparr>"

text \<open>1000 tokens per MON, ten million tokens in supply, 5000 tokens in the wallet.\<close>

definition high_market :: market_env where
  "high_market = \<lparr>buy_quote = Inr (''0xRouter'', 1000000000000000000000),
                   total_supply = Inr 10000000000000000000000000,
                   wallet_balance = Inr 5000000000000000000000\<rparr>"

definition good_sale :: sell_env where
  "good_sale = \<lparr>tcg_balance = Inr 5000000000000000000000,
                 sell_quote = Inr (''0xRouter'', 4999999999999999999),
                 chain_id = Inr 143,
                 clock = 3400000001 / 2,
                 nonce_for_approve = Inr 7,
                 gas_price_for_approve = Inr 50000000000,
                 approve_sent = Inr ''0xa1'',
                 approve_receipt = Inr \<lparr>status = 1\<rparr>,
                 nonce_for_sell = Inr 8,
                 gas_price_for_sell = Inr 52000000000,
                 sell_sent = Inr ''0xb2'',
                 sell_receipt = Inr \<lparr>status = 1\<rparr>\<rparr>"

definition empty_wallet :: sell_env where
  "empty_wallet = good_sale\<lparr>tcg_balance := Inr 0\<rparr>"

definition trigger_cycle :: cycle_env where
  "trigger_cycle =
     \<lparr>price_w = live_feed, market_w = (\<lambda>_. high_market), sell_w = (\<lambda>_. good_sale)\<rparr>"

definition failed_sale :: sell_env where
  "failed_sale = good_sale\<lparr>approve_sent := Inl (Exception ''nonce too low'')\<rparr>"

text \<open>Attempts 1 and 2 fail, attempt 3 succeeds.\<close>

definition retry_cycle :: cycle_env where
  "retry_cycle =
     \<lparr>price_w = live_feed, market_w = (\<lambda>_. high_market),
      sell_w = (\<lambda>attempt. if attempt < 3 then failed_sale else good_sale)\<rparr>"

definition failing_cycle :: cycle_env where
  "failing_cycle =
     \<lparr>price_w = live_feed, market_w = (\<lambda>_. high_market), sell_w = (\<lambda>_. failed_sale)\<rparr>"

definition empty_wallet_cycle :: cycle_env where
  "empty_wallet_cycle =
     \<lparr>price_w = live_feed, market_w = (\<lambda>_. high_market), sell_w = (\<lambda>_. empty_wallet)\<rparr>"

text \<open>An iteration seven seconds after the cache was written.\<close>

definition later_cycle :: cycle_env where
  "later_cycle =
     \<lparr>price_w = live_feed\<lparr>time_check := 1700000008\<rparr>, market_w = (\<lambda>_. high_market),
      sell_w = (\<lambda>_. good_sale)\<rparr>"

text \<open>Both feeds are down, 99 seconds after the cache was written.\<close>

definition outage :: price_env where
  "outage = \<lparr>time_check = 1700000100,
              binance = Inl (Exception ''binance: read timed out''),
              time_binance = 1700000105,
              coingecko = Inl (Exception ''coingecko: 429''),
              time_coingecko = 1700000106\<rparr>"

definition outage_cycle :: cycle_env where
  "outage_cycle =
     \<lparr>price_w = outage, market_w = (\<lambda>_. high_market), sell_w = (\<lambda>_. good_sale)\<rparr>"

definition warm_state :: state where
  "warm_state =
     \<lparr>tcg_sold = False, mon_usd = usd_125_40, mon_usd_cache = (usd_125_40, 1700000001)\<rparr>"

text \<open>1000 tokens per MON, one million tokens in supply.\<close>

definition spec_market :: market_env where
  "spec_market = \<lparr>buy_quote = Inr (''0xRouter'', 1000000000000000000000),
                   total_supply = Inr 1000000000000000000000000,
                   wallet_balance = Inr 5000000000000000000000\<rparr>"

definition spec_cycle :: cycle_env where
  "spec_cycle =
     \<lparr>price_w = live_feed, market_w = (\<lambda>_. spec_market), sell_w = (\<lambda>_. good_sale)\<rparr>"

text \<open>A pool that quotes zero tokens for the probe.\<close>

definition illiquid_market :: market_env where
  "illiquid_market = \<lparr>buy_quote = Inr (''0xRouter'', 0),
                       total_supply = Inr 1000000000000000000000000,
                       wallet_balance = Inr 5000000000000000000000\<rparr>"

text \<open>The \<open>totalSupply\<close> call of FIRE fails; the other tokens answer.\<close>

definition fire_down_market :: "string \<Rightarrow> market_env" where
  "fire_down_market symbol =
     (if symbol = ''FIRE''
      then high_market\<lparr>total_supply := Inl (Exception ''execution reverted'')\<rparr>
      else high_market)"

definition fire_down_cycle :: cycle_env where
  "fire_down_cycle =
     \<lparr>price_w = live_feed, market_w = fire_down_market, sell_w = (\<lambda>_. good_sale)\<rparr>"

section \<open>Stepping through the effects\<close>

lemma snd_io_bind:
  "snd (io_bind m f) = (case fst m of Inl e \<Rightarrow> snd m | Inr x \<Rightarrow> snd m @ snd (f x))"
  by (simp add: io_bind_def split: prod.splits sum.splits)

lemma fst_io_bind:
  "fst (io_bind m f) = (case fst m of Inl e \<Rightarrow> Inl e | Inr x \<Rightarrow> fst (f x))"
  by (simp add: io_bind_def split: prod.splits sum.splits)

lemma snd_io_try:
  "snd (io_try m h) = (case fst m of Inl e \<Rightarrow> snd m @ snd (h e) | Inr x \<Rightarrow> snd m)"
  by (simp add: io_try_def split: prod.splits sum.splits)

lemma io_return_simps: "fst (io_return x) = Inr x" "snd (io_return x) = []"
  by (simp_all add: io_return_def)

lemma io_emit_simps: "fst (io_emit ev) = Inr ()" "snd (io_emit ev) = [ev]"
  by (simp_all add: io_emit_def)

lemma extern_simps:
  "fst (extern c shw r) = r"
  "snd (extern c shw r) = [Call c (case r of Inl e \<Rightarrow> Raised e | Inr v \<Rightarrow> shw v)]"
  by (simp_all add: extern_def)

lemma snd_bind_extern:
  "snd (io_bind (extern c shw r) f) =
     (case r of Inl e \<Rightarrow> [Call c (Raised e)] | Inr v \<Rightarrow> Call c (shw v) # snd (f v))"
  by (simp add: snd_io_bind extern_simps split: sum.splits)

lemma fst_bind_extern:
  "fst (io_bind (extern c shw r) f) = (case r of Inl e \<Rightarrow> Inl e | Inr v \<Rightarrow> fst (f v))"
  by (simp add: fst_io_bind extern_simps split: sum.splits)

lemma snd_bind_emit: "snd (io_bind (io_emit ev) f) = ev # snd (f ())"
  by (simp add: snd_io_bind io_emit_simps)

lemma fst_bind_emit: "fst (io_bind (io_emit ev) f) = fst (f ())"
  by (simp add: fst_io_bind io_emit_simps)

lemmas io_simps =
  snd_bind_extern fst_bind_extern snd_bind_emit fst_bind_emit io_emit_simps io_return_simps

section \<open>Evaluating the scenarios\<close>

lemmas float_eval = to_double_def round_to_unit_def pow_def ilog_def compute_floorlog
  round_half_even_def decimal_round_def from_wei_def

lemma float_of_125_40: "to_double (1254 / 10) = Finite usd_125_40"
  by (simp add: float_eval usd_125_40_def)

lemma high_market_cap:
  "market_cap_usd 1000000000000000000000 10000000000000000000000000 usd_125_40 = Finite 1254000"
  by (simp add: market_cap_usd_def float_eval usd_125_40_def)

lemma wallet_value_5000:
  "wallet_balance_usd 1000000000000000000000 5000000000000000000000 usd_125_40 = Finite 627"
  by (simp add: wallet_balance_usd_def float_eval usd_125_40_def)

lemma cold_cache_is_stale: "cache_fresh (0, 0) 1700000000 = False"
  by (simp add: cache_fresh_def fsub_def float_eval MON_PRICE_TTL_def)

lemma fetch_high_market:
  "fetch_price wallet symbol a usd_125_40 high_market =
     (Inr (Finite 1254000),
      [Call (Lens_getAmountOut a ONE_MON True) (Returned_quote ''0xRouter'' 1000000000000000000000),
       Call (Erc20_totalSupply a) (Returned_uint 10000000000000000000000000),
       Call (Erc20_balanceOf a wallet) (Returned_uint 5000000000000000000000),
       Print (Msg_snapshot symbol (Finite 1254000) (Finite 627))])"
  by (simp add: prod_eq_iff fetch_price_def io_simps high_market_def high_market_cap
        wallet_value_5000 show_quote_def show_uint_def)

lemma good_sale_run:
  "sell_all_tcg wallet good_sale =
     (Inr (),
      [Enter_sell_all_tcg,
       Call (Erc20_balanceOf TCG wallet) (Returned_uint 5000000000000000000000),
       Call (Lens_getAmountOut TCG 5000000000000000000000 False)
            (Returned_quote ''0xRouter'' 4999999999999999999),
       Call Eth_chain_id (Returned_uint 143),
       Print (Msg_approving ''0xRouter'' 5000000000000000000000),
       Call (Eth_get_transaction_count wallet) (Returned_uint 7),
       Call Eth_gas_price (Returned_uint 50000000000),
       Call (Eth_send_raw_transaction
               (Approve_tx TCG ''0xRouter'' 5000000000000000000000 wallet 7 143 100000
                  50000000000))
            (Returned_hash ''0xa1''),
       Call (Eth_wait_for_transaction_receipt ''0xa1'') (Returned_receipt \<lparr>status = 1\<rparr>),
       Print (Msg_approved ''0xa1''),
       Print (Msg_selling 5000000000000000000000 4749999999999999999),
       Call (Eth_get_transaction_count wallet) (Returned_uint 8),
       Call Eth_gas_price (Returned_uint 52000000000),
       Call (Eth_send_raw_transaction
               (Sell_tx ''0xRouter'' 5000000000000000000000 4749999999999999999 TCG wallet
                  1700000300 wallet 8 143 200000 52000000000))
            (Returned_hash ''0xb2''),
       Call (Eth_wait_for_transaction_receipt ''0xb2'') (Returned_receipt \<lparr>status = 1\<rparr>),
       Print (Msg_sold ''0xb2'')])"
  by (simp add: prod_eq_iff sell_all_tcg_def io_simps good_sale_def show_quote_def show_uint_def
        amount_out_min_of_def py_int_def)

lemma trigger_cycle_fields:
  "price_w trigger_cycle = live_feed" "market_w trigger_cycle symbol = high_market"
  "sell_w trigger_cycle n = good_sale"
  by (simp_all add: trigger_cycle_def)

lemma refresh_live_feed:
  "price_w w = live_feed \<Longrightarrow>
   refresh_price initial_state w =
     (\<lparr>tcg_sold = False, mon_usd = usd_125_40, mon_usd_cache = (usd_125_40, 1700000001)\<rparr>,
      [Call (Http_get BINANCE_URL) (Returned_price usd_125_40)])"
  by (simp add: refresh_price_def get_mon_usd_price_def initial_state_def live_feed_def
      cold_cache_is_stale io_try_def io_bind_def extern_def io_return_def)

lemma trigger_cycle_sold: "tcg_sold (fst (cycle wallet initial_state trigger_cycle))"
  by (simp add: cycle_def refresh_live_feed TOKENS_def process_token_def fetch_high_market
       good_sale_run trigger_cycle_fields TCG_SELL_AT_def)

lemma failed_sale_fails:
  "fst (sell_all_tcg wallet failed_sale) = Inl (Exception ''nonce too low'')"
  by (simp add: sell_all_tcg_def io_simps failed_sale_def good_sale_def)

lemma reading_high_initial:
  "price_w w = live_feed \<Longrightarrow> market_w w ''TCG'' = high_market \<Longrightarrow>
   reading_meets_threshold wallet initial_state w"
  by (simp add: reading_meets_threshold_def refresh_live_feed fetch_high_market TCG_SELL_AT_def)

lemma warm_cache_is_fresh: "cache_fresh (usd_125_40, 1700000001) 1700000008 = True"
  by (simp add: cache_fresh_def fsub_def float_eval MON_PRICE_TTL_def)

lemma refresh_later:
  "mon_usd_cache s = (usd_125_40, 1700000001) \<Longrightarrow>
   refresh_price s later_cycle = (s\<lparr>mon_usd := usd_125_40\<rparr>, [])"
  by (simp add: refresh_price_def get_mon_usd_price_def later_cycle_def live_feed_def
        warm_cache_is_fresh io_return_def)

lemma reading_high_later:
  assumes "mon_usd_cache s = (usd_125_40, 1700000001)"
  shows "reading_meets_threshold wallet s later_cycle"
proof -
  have "market_w later_cycle ''TCG'' = high_market"
    by (simp add: later_cycle_def)
  with assms show ?thesis
    by (simp add: reading_meets_threshold_def refresh_later fetch_high_market TCG_SELL_AT_def)
qed

lemma retry_cycle_attempts: "attempt_succeeds wallet retry_cycle n = (\<not> n < 3)"
  by (simp add: attempt_succeeds_def retry_cycle_def failed_sale_fails good_sale_run)

lemma failing_cycle_attempts: "\<not> attempt_succeeds wallet failing_cycle n"
  by (simp add: attempt_succeeds_def failing_cycle_def failed_sale_fails)

lemma later_cycle_attempts: "attempt_succeeds wallet later_cycle n"
  by (simp add: attempt_succeeds_def later_cycle_def good_sale_run)

section \<open>The sell executor\<close>

lemma amount_out_min_floor: "int (amount_out_min_of q) = \<lfloor>real q * 95 / 100\<rfloor>"
proof -
  have "\<lfloor>real (q * 95) / real 100\<rfloor> = int (q * 95 div 100)"
    by (rule floor_divide_of_nat_eq)
  then show ?thesis by (simp add: amount_out_min_of_def)
qed

text \<open>A sell transaction in the trace fixes how far the run got and what it was built
  from.\<close>

lemma sell_submitted_fields:
  assumes "Call (Eth_send_raw_transaction (Sell_tx r a m tok rcp d sndr n c g gp)) out
             \<in> set (snd (sell_all_tcg wallet w))"
  shows "\<exists>b Q n1 g1 h1 rc1.
           tcg_balance w = Inr b \<and> b \<noteq> 0 \<and> sell_quote w = Inr (r, Q) \<and>
           chain_id w = Inr c \<and> nonce_for_approve w = Inr n1 \<and>
           gas_price_for_approve w = Inr g1 \<and> approve_sent w = Inr h1 \<and>
           approve_receipt w = Inr rc1 \<and> nonce_for_sell w = Inr n \<and>
           gas_price_for_sell w = Inr gp \<and>
           a = unat b \<and> m = amount_out_min_of (unat Q) \<and> tok = TCG \<and> rcp = wallet \<and>
           d = py_int (clock w) + 300 \<and> sndr = wallet \<and> g = 200000"
  using assms
  by (auto simp: sell_all_tcg_def io_simps split: sum.splits prod.splits if_splits)

lemma sell_all_tcg_attempt_events:
  "filter attempt_event (snd (sell_all_tcg wallet w)) = [Enter_sell_all_tcg]"
  by (simp add: sell_all_tcg_def io_simps attempt_event_def split: sum.splits prod.splits)

text \<open>
  \<^bold>\<open>C5\<close>. Whenever \<open>sell_all_tcg\<close> submits a sell transaction, the lens was asked for a
  sell quote for the full balance (the transaction's \<open>amountIn\<close>), it answered with some
  amount \<open>Q\<close>, and the transaction's \<open>amountOutMin\<close> is exactly \<open>\<lfloor>Q * 95 / 100\<rfloor>\<close>, which is
  the integer quotient \<open>Q * 95 div 100\<close>.
\<close>

theorem amount_out_min_is_floor_of_95_percent:
  assumes "Call (Eth_send_raw_transaction (Sell_tx r a m tok rcp d sndr n c g gp)) out
             \<in> set (snd (sell_all_tcg wallet w))"
  shows "\<exists>b Q. tcg_balance w = Inr b \<and> a = unat b \<and> sell_quote w = Inr (r, Q) \<and>
           int m = \<lfloor>real (unat Q) * 95 / 100\<rfloor> \<and> m = unat Q * 95 div 100"
proof -
  from sell_submitted_fields [OF assms] obtain b Q where
    "tcg_balance w = Inr b" "a = unat b" "sell_quote w = Inr (r, Q)"
    "m = amount_out_min_of (unat Q)"
    by blast
  then show ?thesis
    using amount_out_min_floor [of "unat Q"] by (simp add: amount_out_min_of_def)
qed

theorem amount_out_min_is_floor_of_95_percent_witness:
  "Call (Eth_send_raw_transaction
           (Sell_tx ''0xRouter'' 5000000000000000000000 4749999999999999999 TCG ''0xWallet''
              1700000300 ''0xWallet'' 8 143 200000 52000000000))
        (Returned_hash ''0xb2'')
     \<in> set (snd (sell_all_tcg ''0xWallet'' good_sale)) \<and>
   (\<exists>b Q. tcg_balance good_sale = Inr b \<and> 5000000000000000000000 = unat b \<and>
      sell_quote good_sale = Inr (''0xRouter'', Q) \<and>
      int 4749999999999999999 = \<lfloor>real (unat Q) * 95 / 100\<rfloor> \<and>
      (4749999999999999999 :: nat) = unat Q * 95 div 100)"
proof -
  have h: "Call (Eth_send_raw_transaction
           (Sell_tx ''0xRouter'' 5000000000000000000000 4749999999999999999 TCG ''0xWallet''
              1700000300 ''0xWallet'' 8 143 200000 52000000000))
        (Returned_hash ''0xb2'')
     \<in> set (snd (sell_all_tcg ''0xWallet'' good_sale))"
    by (simp add: good_sale_run)
  from amount_out_min_is_floor_of_95_percent [OF h] h show ?thesis by simp
qed

lemma sell_all_tcg_zero_balance:
  "tcg_balance w = Inr 0 \<Longrightarrow>
   sell_all_tcg wallet w =
     (Inr (),
      [Enter_sell_all_tcg, Call (Erc20_balanceOf TCG wallet) (Returned_uint 0),
       Print Msg_nothing_to_sell])"
  by (simp add: prod_eq_iff sell_all_tcg_def io_simps show_uint_def)

text \<open>
  \<^bold>\<open>C6\<close>. If the balance read at the start of \<open>sell_all_tcg\<close> is zero, the run consists
  of the entry, that one read and the message "nothing to sell": no approval and no sell
  transaction is submitted, and the function returns normally, without an exception.
\<close>

theorem zero_balance_nothing_to_sell:
  assumes "tcg_balance w = Inr 0"
  shows "sell_all_tcg wallet w =
           (Inr (),
            [Enter_sell_all_tcg, Call (Erc20_balanceOf TCG wallet) (Returned_uint 0),
             Print Msg_nothing_to_sell]) \<and>
         (\<forall>t out. Call (Eth_send_raw_transaction t) out \<notin> set (snd (sell_all_tcg wallet w)))"
  by (simp add: sell_all_tcg_zero_balance [OF assms])

theorem zero_balance_nothing_to_sell_witness:
  "tcg_balance empty_wallet = Inr 0 \<and>
   sell_all_tcg ''0xWallet'' empty_wallet =
     (Inr (),
      [Enter_sell_all_tcg, Call (Erc20_balanceOf TCG ''0xWallet'') (Returned_uint 0),
       Print Msg_nothing_to_sell])"
proof -
  have h: "tcg_balance empty_wallet = Inr 0"
    by (simp add: empty_wallet_def)
  from zero_balance_nothing_to_sell [OF h, of "''0xWallet''"] h show ?thesis by simp
qed

text \<open>
  \<^bold>\<open>C4\<close>. Wherever the trace of a run of \<open>sell_all_tcg\<close> holds the submission of a sell
  transaction (position \<open>k\<close>), the approval transaction was submitted before it (position
  \<open>i0\<close>) and returned a hash \<open>h\<close>, the wait for the receipt of \<open>h\<close> returned a receipt
  before it (position \<open>i\<close>, after \<open>i0\<close>), and the transaction count of the sender was read
  between that wait and the submission (position \<open>j\<close>); the nonce of the sell transaction
  is the value of that read, \<open>nonce_for_sell\<close>, not the value \<open>nonce_for_approve\<close> the
  approval was built with.
\<close>

theorem sell_follows_awaited_approval_with_fresh_nonce:
  assumes k: "k < length (snd (sell_all_tcg wallet w))"
    and at_k: "snd (sell_all_tcg wallet w) ! k =
                 Call (Eth_send_raw_transaction (Sell_tx r a m tok rcp d sndr n c g gp)) out"
  shows "\<exists>i0 i j amt n1 g1 h rc.
           i0 < i \<and> i < j \<and> j < k \<and>
           snd (sell_all_tcg wallet w) ! i0 =
             Call (Eth_send_raw_transaction (Approve_tx TCG r amt sndr n1 c 100000 g1))
                  (Returned_hash h) \<and>
           snd (sell_all_tcg wallet w) ! i =
             Call (Eth_wait_for_transaction_receipt h) (Returned_receipt rc) \<and>
           snd (sell_all_tcg wallet w) ! j =
             Call (Eth_get_transaction_count sndr) (Returned_uint n) \<and>
           nonce_for_approve w = Inr n1 \<and> nonce_for_sell w = Inr n"
proof -
  let ?tr = "snd (sell_all_tcg wallet w)"
  have "?tr ! k \<in> set ?tr"
    using k by simp
  with at_k have
    "Call (Eth_send_raw_transaction (Sell_tx r a m tok rcp d sndr n c g gp)) out \<in> set ?tr"
    by simp
  from sell_submitted_fields [OF this] obtain b Q n1 g1 h1 rc1 where
    f: "tcg_balance w = Inr b" "b \<noteq> 0" "sell_quote w = Inr (r, Q)" "chain_id w = Inr c"
       "nonce_for_approve w = Inr n1" "gas_price_for_approve w = Inr g1"
       "approve_sent w = Inr h1" "approve_receipt w = Inr rc1" "nonce_for_sell w = Inr n"
       "gas_price_for_sell w = Inr gp" "sndr = wallet"
    by blast
  have k13: "k = 13"
    using k at_k f
    by (auto simp: sell_all_tcg_def io_simps nth_Cons' split: sum.splits if_splits)
  show ?thesis
    apply (rule exI [of _ 7], rule exI [of _ 8], rule exI [of _ 11])
    using f k13
    by (simp add: sell_all_tcg_def io_simps show_quote_def split: sum.splits)
qed

theorem sell_follows_awaited_approval_with_fresh_nonce_witness:
  "13 < length (snd (sell_all_tcg ''0xWallet'' good_sale)) \<and>
   snd (sell_all_tcg ''0xWallet'' good_sale) ! 13 =
     Call (Eth_send_raw_transaction
             (Sell_tx ''0xRouter'' 5000000000000000000000 4749999999999999999 TCG ''0xWallet''
                1700000300 ''0xWallet'' 8 143 200000 52000000000))
          (Returned_hash ''0xb2'') \<and>
   (\<exists>i0 i j amt n1 g1 h rc.
      i0 < i \<and> i < j \<and> j < 13 \<and>
      snd (sell_all_tcg ''0xWallet'' good_sale) ! i0 =
        Call (Eth_send_raw_transaction (Approve_tx TCG ''0xRouter'' amt ''0xWallet'' n1 143 100000 g1))
             (Returned_hash h) \<and>
      snd (sell_all_tcg ''0xWallet'' good_sale) ! i =
        Call (Eth_wait_for_transaction_receipt h) (Returned_receipt rc) \<and>
      snd (sell_all_tcg ''0xWallet'' good_sale) ! j =
        Call (Eth_get_transaction_count ''0xWallet'') (Returned_uint 8) \<and>
      nonce_for_approve good_sale = Inr n1 \<and> nonce_for_sell good_sale = Inr 8)"
proof -
  have h1: "13 < length (snd (sell_all_tcg ''0xWallet'' good_sale))"
    by (simp add: good_sale_run)
  have h2: "snd (sell_all_tcg ''0xWallet'' good_sale) ! 13 =
     Call (Eth_send_raw_transaction
             (Sell_tx ''0xRouter'' 5000000000000000000000 4749999999999999999 TCG ''0xWallet''
                1700000300 ''0xWallet'' 8 143 200000 52000000000))
          (Returned_hash ''0xb2'')"
    by (simp add: good_sale_run)
  from sell_follows_awaited_approval_with_fresh_nonce [OF h1 h2] h1 h2 show ?thesis
    by blast
qed

section \<open>The polling loop\<close>

lemma quiet_price: "list_all quiet (snd (get_mon_usd_price cache pw))"
  by (simp add: get_mon_usd_price_def snd_io_try fst_io_bind snd_io_bind io_return_simps
      extern_simps split: sum.splits)

lemma quiet_fetch: "list_all quiet (snd (fetch_price wallet symbol a m mw))"
  by (simp add: fetch_price_def io_simps split: sum.splits prod.splits)

lemma quiet_no_sell_activity: "list_all quiet tr \<Longrightarrow> filter sell_activity tr = []"
  by (induction tr) (auto elim: quiet.elims)

lemma quiet_no_sleep: "list_all quiet tr \<Longrightarrow> filter (\<lambda>ev. ev = Sleep n) tr = []"
  by (induction tr) auto

lemma quiet_refresh: "list_all quiet (snd (refresh_price s w))"
  using quiet_price [of "mon_usd_cache s" "price_w w"]
  by (auto simp: refresh_price_def split: prod.splits sum.splits)

lemma refresh_keeps_sold: "tcg_sold (fst (refresh_price s w)) = tcg_sold s"
  by (simp add: refresh_price_def split: prod.splits sum.splits)

lemma process_token_sold:
  "tcg_sold s \<Longrightarrow> fst (process_token wallet w s item) = s \<and>
     list_all quiet (snd (process_token wallet w s item))"
  using quiet_fetch [of wallet "fst item" "snd item" "mon_usd s" "market_w w (fst item)"]
  by (auto simp: process_token_def split: prod.splits sum.splits)

lemma for_tokens_sold:
  "tcg_sold s \<Longrightarrow> fst (for_tokens wallet w s items) = s \<and>
     list_all quiet (snd (for_tokens wallet w s items))"
proof (induction items)
  case Nil
  then show ?case by simp
next
  case (Cons item items)
  with process_token_sold [of s wallet w item] show ?case
    by (auto split: prod.splits)
qed

lemma cycle_sold:
  assumes "tcg_sold s"
  shows "tcg_sold (fst (cycle wallet s w)) \<and> filter sell_activity (snd (cycle wallet s w)) = []"
proof -
  obtain s1 tr1 where r: "refresh_price s w = (s1, tr1)"
    by (cases "refresh_price s w")
  with assms refresh_keeps_sold [of s w] quiet_refresh [of s w]
  have s1: "tcg_sold s1" and q1: "list_all quiet tr1"
    by simp_all
  from for_tokens_sold [OF s1, of wallet w TOKENS] q1 r s1 show ?thesis
    by (auto simp: cycle_def quiet_no_sell_activity split: prod.splits)
qed

lemma run_sold:
  "tcg_sold s \<Longrightarrow>
     tcg_sold (fst (run wallet s ws)) \<and> filter sell_activity (snd (run wallet s ws)) = []"
proof (induction ws arbitrary: s)
  case Nil
  then show ?case by simp
next
  case (Cons w ws)
  from cycle_sold [OF Cons.prems, of wallet w] Cons.IH [of "fst (cycle wallet s w)"]
  show ?case by (auto split: prod.splits)
qed

lemma run_append:
  "run wallet s (ws1 @ ws2) =
     (fst (run wallet (fst (run wallet s ws1)) ws2),
      snd (run wallet s ws1) @ snd (run wallet (fst (run wallet s ws1)) ws2))"
  by (induction ws1 arbitrary: s) (simp_all split: prod.splits)

text \<open>\<open>main\<close> stops at once if the node cannot be reached, and otherwise enters the
  loop from the initial state.\<close>

lemma main_enters_loop:
  "\<not> is_connected w0 \<Longrightarrow>
   main wallet w0 ws = (Inl (Exception ''Cannot connect to RPC: https://rpc.monad.xyz''), [])"
  "is_connected w0 \<Longrightarrow> block_number w0 = Inl exc \<Longrightarrow>
   main wallet w0 ws = (Inl exc, [Call Eth_block_number (Raised exc)])"
  "is_connected w0 \<Longrightarrow> block_number w0 = Inr n \<Longrightarrow>
   main wallet w0 ws =
     (Inr (fst (run wallet initial_state ws)),
      Call Eth_block_number (Returned_uint n) # Print (Msg_connected n) #
      Print (Msg_wallet wallet) # snd (run wallet initial_state ws))"
  by (simp_all add: main_def RPC_URL_def prod_eq_iff io_simps split: prod.splits)

text \<open>
  \<^bold>\<open>C1\<close>. Take any execution of the polling loop and any point between two iterations at
  which \<open>tcg_sold\<close> is set (after the iterations \<open>ws1\<close>). Whatever the world answers in the
  iterations \<open>ws2\<close> that follow, market caps at or above the threshold included, the trace
  of those iterations holds no invocation of \<open>sell_all_tcg\<close> and no submitted transaction,
  and the flag stays set.
\<close>

theorem sold_token_is_never_sold_again:
  assumes "tcg_sold (fst (run wallet s ws1))"
  shows "snd (run wallet s (ws1 @ ws2)) =
           snd (run wallet s ws1) @ snd (run wallet (fst (run wallet s ws1)) ws2) \<and>
         filter sell_activity (snd (run wallet (fst (run wallet s ws1)) ws2)) = [] \<and>
         tcg_sold (fst (run wallet s (ws1 @ ws2)))"
  using run_sold [OF assms, of wallet ws2] by (simp add: run_append)

theorem sold_token_is_never_sold_again_witness:
  "tcg_sold (fst (run ''0xWallet'' initial_state [trigger_cycle])) \<and>
   filter sell_activity
     (snd (run ''0xWallet'' (fst (run ''0xWallet'' initial_state [trigger_cycle]))
             [trigger_cycle, trigger_cycle])) = []"
proof -
  have h: "tcg_sold (fst (run ''0xWallet'' initial_state [trigger_cycle]))"
    using trigger_cycle_sold [of "''0xWallet''"] by (simp split: prod.splits)
  from sold_token_is_never_sold_again [OF h, of "[trigger_cycle, trigger_cycle]"] h
  show ?thesis by blast
qed

subsection \<open>The retry loop\<close>

lemma quiet_filter:
  "list_all quiet tr \<Longrightarrow> (\<And>ev. P ev \<Longrightarrow> \<not> quiet ev) \<Longrightarrow> filter P tr = []"
  by (induction tr) auto

lemma attempt_events_of_run:
  "sell_all_tcg wallet sw = (r, tr) \<Longrightarrow> filter attempt_event tr = [Enter_sell_all_tcg]"
  using sell_all_tcg_attempt_events [of wallet sw] by simp

lemma sell_attempts_three:
  "filter attempt_event (snd (sell_attempts wallet (sell_w w) [1, 2, 3])) =
     attempts_made wallet w \<and>
   fst (sell_attempts wallet (sell_w w) [1, 2, 3]) =
     (attempt_succeeds wallet w 1 \<or> attempt_succeeds wallet w 2 \<or> attempt_succeeds wallet w 3)"
  by (auto simp: attempts_made_def attempt_succeeds_def attempt_event_def
       dest!: attempt_events_of_run split: prod.splits sum.splits)

lemma process_token_other:
  "fst item \<noteq> ''TCG'' \<Longrightarrow> fst (process_token wallet w s item) = s \<and>
     list_all quiet (snd (process_token wallet w s item))"
  using quiet_fetch [of wallet "fst item" "snd item" "mon_usd s" "market_w w (fst item)"]
  by (auto simp: process_token_def split: prod.splits sum.splits)

lemma process_tcg_triggered:
  assumes "\<not> tcg_sold s"
    and "fst (fetch_price wallet ''TCG'' TCG (mon_usd s) (market_w w ''TCG'')) = Inr mcap"
    and "float_ge mcap TCG_SELL_AT"
    and P: "\<And>ev. P ev \<Longrightarrow> \<not> quiet ev"
  shows "fst (process_token wallet w s (''TCG'', TCG)) =
           s\<lparr>tcg_sold := fst (sell_attempts wallet (sell_w w) [1, 2, 3])\<rparr> \<and>
         filter P (snd (process_token wallet w s (''TCG'', TCG))) =
           filter P (snd (sell_attempts wallet (sell_w w) [1, 2, 3]))"
proof -
  have "\<not> P (Print msg)" for msg
    using P [of "Print msg"] by auto
  moreover have
    "filter P (snd (fetch_price wallet ''TCG'' TCG (mon_usd s) (market_w w ''TCG''))) = []"
    using quiet_fetch P by (rule quiet_filter)
  ultimately show ?thesis
    using assms(1-3)
    by (auto simp: process_token_def split: prod.splits sum.splits)
qed

text \<open>In an iteration whose trigger test succeeds, the events that are not reads or
  prints are those of the retry loop and the final sleep.\<close>

lemma cycle_triggered:
  assumes "\<not> tcg_sold s" and "reading_meets_threshold wallet s w"
    and P: "\<And>ev. P ev \<Longrightarrow> \<not> quiet ev"
  shows "filter P (snd (cycle wallet s w)) =
           filter P (snd (sell_attempts wallet (sell_w w) [1, 2, 3])) @
           filter P [Sleep POLL_INTERVAL] \<and>
         tcg_sold (fst (cycle wallet s w)) = fst (sell_attempts wallet (sell_w w) [1, 2, 3])"
proof -
  obtain s1 tr1 where r: "refresh_price s w = (s1, tr1)"
    by (cases "refresh_price s w")
  with assms refresh_keeps_sold [of s w] quiet_refresh [of s w]
  have s1: "\<not> tcg_sold s1" and q1: "list_all quiet tr1"
    by simp_all
  from assms(2) r obtain mcap where
    m: "fst (fetch_price wallet ''TCG'' TCG (mon_usd s1) (market_w w ''TCG'')) = Inr mcap"
       "float_ge mcap TCG_SELL_AT"
    by (auto simp: reading_meets_threshold_def split: sum.splits)
  note t = process_tcg_triggered [OF s1 m P]
  obtain s2 tr2 where p: "process_token wallet w s1 (''TCG'', TCG) = (s2, tr2)"
    by (cases "process_token wallet w s1 (''TCG'', TCG)")
  have f: "fst (process_token wallet w s2 (''FIRE'', FIRE)) = s2"
          "filter P (snd (process_token wallet w s2 (''FIRE'', FIRE))) = []"
    using process_token_other [of "(''FIRE'', FIRE)" wallet w s2] quiet_filter [OF _ P]
    by simp_all
  have mo: "fst (process_token wallet w s2 (''MONA'', MONA)) = s2"
           "filter P (snd (process_token wallet w s2 (''MONA'', MONA))) = []"
    using process_token_other [of "(''MONA'', MONA)" wallet w s2] quiet_filter [OF _ P]
    by simp_all
  have pr: "\<not> P (Print msg)" for msg
    using P [of "Print msg"] by auto
  from t p f mo r pr quiet_filter [OF q1 P] show ?thesis
    by (auto simp: cycle_def TOKENS_def simp del: sell_attempts.simps split: prod.splits)
qed

lemma cycle_attempts:
  assumes "\<not> tcg_sold s" and "reading_meets_threshold wallet s w"
  shows "filter attempt_event (snd (cycle wallet s w)) = attempts_made wallet w \<and>
         tcg_sold (fst (cycle wallet s w)) =
           (attempt_succeeds wallet w 1 \<or> attempt_succeeds wallet w 2 \<or>
            attempt_succeeds wallet w 3)"
proof -
  have q: "attempt_event ev \<Longrightarrow> \<not> quiet ev" for ev
    by (auto simp: attempt_event_def)
  have "filter attempt_event [Sleep POLL_INTERVAL] = []"
    by (simp add: attempt_event_def POLL_INTERVAL_def)
  with cycle_triggered [OF assms, of attempt_event] q sell_attempts_three [of wallet w]
  show ?thesis
    by (simp del: sell_attempts.simps)
qed

lemma process_token_keeps_price:
  "mon_usd (fst (process_token wallet w s item)) = mon_usd s \<and>
   mon_usd_cache (fst (process_token wallet w s item)) = mon_usd_cache s"
  by (simp add: process_token_def split: prod.splits sum.splits)

lemma for_tokens_keeps_price:
  "mon_usd (fst (for_tokens wallet w s items)) = mon_usd s \<and>
   mon_usd_cache (fst (for_tokens wallet w s items)) = mon_usd_cache s"
proof (induction items arbitrary: s)
  case Nil
  show ?case by simp
next
  case (Cons item items)
  from Cons [of "fst (process_token wallet w s item)"]
    process_token_keeps_price [of wallet w s item]
  show ?case by (auto split: prod.splits)
qed

lemma cycle_keeps_price:
  "mon_usd (fst (cycle wallet s w)) = mon_usd (fst (refresh_price s w)) \<and>
   mon_usd_cache (fst (cycle wallet s w)) = mon_usd_cache (fst (refresh_price s w))"
  using for_tokens_keeps_price [of wallet w "fst (refresh_price s w)" TOKENS]
  by (auto simp: cycle_def split: prod.splits)

lemma cache_after_live_cycle:
  "price_w w = live_feed \<Longrightarrow>
   mon_usd_cache (fst (cycle wallet initial_state w)) = (usd_125_40, 1700000001)"
  by (simp add: cycle_keeps_price refresh_live_feed)

text \<open>
  \<^bold>\<open>C3\<close>. Take an iteration whose trigger test succeeds: \<open>tcg_sold\<close> is false and the
  TCG market cap read is at or above the threshold. Then the invocations of
  \<open>sell_all_tcg\<close> and the 3-second sleeps of that iteration are, in order: one invocation
  if attempt 1 succeeds; invocation, sleep, invocation if attempt 1 fails and attempt 2
  succeeds; invocation, sleep, invocation, sleep, invocation otherwise. So there are at
  most 3 invocations, a sleep of 3 seconds separates a failed attempt from the next, and
  nothing follows the first success. \<open>tcg_sold\<close> is set exactly if one of the attempts
  made succeeded. If all three fail the flag is still false, and any later iteration that
  starts from the resulting state and reads a market cap at or above the threshold runs
  the same sequence again.
\<close>

theorem bounded_retry_within_cycle:
  assumes "\<not> tcg_sold s" and "reading_meets_threshold wallet s w"
  shows "filter attempt_event (snd (cycle wallet s w)) = attempts_made wallet w \<and>
         length (filter (\<lambda>ev. ev = Enter_sell_all_tcg) (snd (cycle wallet s w))) \<le> 3 \<and>
         tcg_sold (fst (cycle wallet s w)) =
           (attempt_succeeds wallet w 1 \<or> attempt_succeeds wallet w 2 \<or>
            attempt_succeeds wallet w 3) \<and>
         (\<not> attempt_succeeds wallet w 1 \<and> \<not> attempt_succeeds wallet w 2 \<and>
          \<not> attempt_succeeds wallet w 3 \<longrightarrow>
            (\<forall>w'. reading_meets_threshold wallet (fst (cycle wallet s w)) w' \<longrightarrow>
               filter attempt_event (snd (cycle wallet (fst (cycle wallet s w)) w')) =
                 attempts_made wallet w'))"
proof -
  note c = cycle_attempts [OF assms]
  have "filter (\<lambda>ev. ev = Enter_sell_all_tcg) (snd (cycle wallet s w)) =
          filter (\<lambda>ev. ev = Enter_sell_all_tcg) (filter attempt_event (snd (cycle wallet s w)))"
    by (simp add: attempt_event_def conj_commute cong: conj_cong)
  with c have n: "length (filter (\<lambda>ev. ev = Enter_sell_all_tcg) (snd (cycle wallet s w))) \<le> 3"
    by (simp add: attempts_made_def)
  from c n cycle_attempts [of "fst (cycle wallet s w)" wallet] show ?thesis
    by simp
qed

theorem bounded_retry_within_cycle_witness:
  "\<not> tcg_sold initial_state \<and> reading_meets_threshold ''0xWallet'' initial_state retry_cycle \<and>
   filter attempt_event (snd (cycle ''0xWallet'' initial_state retry_cycle)) =
     [Enter_sell_all_tcg, Sleep 3, Enter_sell_all_tcg, Sleep 3, Enter_sell_all_tcg] \<and>
   tcg_sold (fst (cycle ''0xWallet'' initial_state retry_cycle)) \<and>
   reading_meets_threshold ''0xWallet'' initial_state failing_cycle \<and>
   filter attempt_event (snd (cycle ''0xWallet'' initial_state failing_cycle)) =
     [Enter_sell_all_tcg, Sleep 3, Enter_sell_all_tcg, Sleep 3, Enter_sell_all_tcg] \<and>
   \<not> tcg_sold (fst (cycle ''0xWallet'' initial_state failing_cycle)) \<and>
   reading_meets_threshold ''0xWallet'' (fst (cycle ''0xWallet'' initial_state failing_cycle))
     later_cycle \<and>
   filter attempt_event
     (snd (cycle ''0xWallet'' (fst (cycle ''0xWallet'' initial_state failing_cycle))
             later_cycle)) =
     [Enter_sell_all_tcg]"
proof -
  have h0: "\<not> tcg_sold initial_state"
    by (simp add: initial_state_def)
  have h1: "reading_meets_threshold ''0xWallet'' initial_state retry_cycle"
    by (rule reading_high_initial) (simp_all add: retry_cycle_def)
  have h2: "reading_meets_threshold ''0xWallet'' initial_state failing_cycle"
    by (rule reading_high_initial) (simp_all add: failing_cycle_def)
  have h3: "reading_meets_threshold ''0xWallet''
              (fst (cycle ''0xWallet'' initial_state failing_cycle)) later_cycle"
    by (rule reading_high_later, rule cache_after_live_cycle) (simp add: failing_cycle_def)
  from bounded_retry_within_cycle [OF h0 h1] bounded_retry_within_cycle [OF h0 h2] h0 h1 h2 h3
  show ?thesis
    by (simp add: attempts_made_def retry_cycle_attempts failing_cycle_attempts
          later_cycle_attempts)
qed

text \<open>
  \<^bold>\<open>C10\<close>. Take an iteration whose trigger test succeeds and in which the first attempt
  reads a zero token balance. \<open>sell_all_tcg\<close> then returns normally, so the loop sets
  \<open>tcg_sold\<close>, although no transaction was submitted in that iteration. From the resulting
  state on, whatever the world answers in later iterations (a nonzero balance and a market
  cap at or above the threshold included), \<open>sell_all_tcg\<close> is not invoked and no
  transaction is submitted.
\<close>

theorem zero_balance_trigger_marks_sold:
  assumes "\<not> tcg_sold s" and "reading_meets_threshold wallet s w"
    and "tcg_balance (sell_w w 1) = Inr 0"
  shows "tcg_sold (fst (cycle wallet s w)) \<and>
         filter submission (snd (cycle wallet s w)) = [] \<and>
         (\<forall>ws. filter sell_activity (snd (run wallet (fst (cycle wallet s w)) ws)) = [])"
proof -
  note z = sell_all_tcg_zero_balance [OF assms(3), of wallet]
  have ok: "attempt_succeeds wallet w 1"
    unfolding attempt_succeeds_def z by simp
  with cycle_attempts [OF assms(1,2)] have sold: "tcg_sold (fst (cycle wallet s w))"
    by simp
  have "sell_attempts wallet (sell_w w) [1, 2, 3] = (True, snd (sell_all_tcg wallet (sell_w w 1)))"
    unfolding sell_attempts.simps z by simp
  then have "filter submission (snd (sell_attempts wallet (sell_w w) [1, 2, 3])) = []"
    unfolding z by simp
  moreover have "submission ev \<Longrightarrow> \<not> quiet ev" for ev
    by (erule submission.elims) simp
  ultimately have "filter submission (snd (cycle wallet s w)) = []"
    using cycle_triggered [OF assms(1,2), of submission] by simp
  with sold run_sold [OF sold] show ?thesis
    by simp
qed

theorem zero_balance_trigger_marks_sold_witness:
  "\<not> tcg_sold initial_state \<and>
   reading_meets_threshold ''0xWallet'' initial_state empty_wallet_cycle \<and>
   tcg_balance (sell_w empty_wallet_cycle 1) = Inr 0 \<and>
   tcg_sold (fst (cycle ''0xWallet'' initial_state empty_wallet_cycle)) \<and>
   filter submission (snd (cycle ''0xWallet'' initial_state empty_wallet_cycle)) = [] \<and>
   tcg_balance (sell_w later_cycle 1) = Inr 5000000000000000000000 \<and>
   reading_meets_threshold ''0xWallet''
     (fst (cycle ''0xWallet'' initial_state empty_wallet_cycle)) later_cycle \<and>
   filter sell_activity
     (snd (run ''0xWallet'' (fst (cycle ''0xWallet'' initial_state empty_wallet_cycle))
             [later_cycle, later_cycle])) = []"
proof -
  have h0: "\<not> tcg_sold initial_state"
    by (simp add: initial_state_def)
  have h1: "reading_meets_threshold ''0xWallet'' initial_state empty_wallet_cycle"
    by (rule reading_high_initial) (simp_all add: empty_wallet_cycle_def)
  have h2: "tcg_balance (sell_w empty_wallet_cycle 1) = Inr 0"
    by (simp add: empty_wallet_cycle_def empty_wallet_def)
  have h3: "tcg_balance (sell_w later_cycle 1) = Inr 5000000000000000000000"
    by (simp add: later_cycle_def good_sale_def)
  have h4: "reading_meets_threshold ''0xWallet''
              (fst (cycle ''0xWallet'' initial_state empty_wallet_cycle)) later_cycle"
    by (rule reading_high_later, rule cache_after_live_cycle) (simp add: empty_wallet_cycle_def)
  note c = zero_balance_trigger_marks_sold [OF h0 h1 h2]
  from c have "filter sell_activity
     (snd (run ''0xWallet'' (fst (cycle ''0xWallet'' initial_state empty_wallet_cycle))
             [later_cycle, later_cycle])) = []"
    by blast
  with c h0 h1 h2 h3 h4 show ?thesis
    by blast
qed

section \<open>The reference price\<close>

lemma warm_cache_expired: "cache_fresh (usd_125_40, 1700000001) 1700000100 = False"
  by (simp add: cache_fresh_def fsub_def float_eval MON_PRICE_TTL_def)

lemma get_price_cold_live:
  "get_mon_usd_price (0, 0) live_feed =
     (Inr (usd_125_40, (usd_125_40, 1700000001)),
      [Call (Http_get BINANCE_URL) (Returned_price usd_125_40)])"
  by (simp add: get_mon_usd_price_def live_feed_def cold_cache_is_stale io_try_def io_bind_def
        extern_def io_return_def)

lemma get_price_warm_outage:
  "get_mon_usd_price (usd_125_40, 1700000001) outage =
     (Inl (Exception ''coingecko: 429''),
      [Call (Http_get BINANCE_URL) (Raised (Exception ''binance: read timed out'')),
       Call (Http_get COINGECKO_URL) (Raised (Exception ''coingecko: 429''))])"
  by (simp add: get_mon_usd_price_def outage_def warm_cache_expired io_try_def io_bind_def
        extern_def io_return_def)

text \<open>
  \<^bold>\<open>C2\<close>, as stated, fails. A first call on the cold cache fetches 125.40 from the
  primary source and populates the cache. A second call 99 seconds later, with both
  sources down, raises the secondary source's exception although the cache is populated.
\<close>

theorem populated_cache_does_not_stop_getter_failing:
  "fst (get_mon_usd_price (0, 0) live_feed) = Inr (usd_125_40, (usd_125_40, 1700000001)) \<and>
   fst (get_mon_usd_price (usd_125_40, 1700000001) outage) = Inl (Exception ''coingecko: 429'')"
  by (simp add: get_price_cold_live get_price_warm_outage)

lemma get_price_cases:
  "get_mon_usd_price cache w =
     (if cache_fresh cache (time_check w) then (Inr (fst cache, cache), [])
      else case binance w of
        Inr p \<Rightarrow> (Inr (p, (p, time_binance w)), [Call (Http_get BINANCE_URL) (Returned_price p)])
      | Inl e \<Rightarrow>
          (case coingecko w of
             Inr p \<Rightarrow>
               (Inr (p, (p, time_coingecko w)),
                [Call (Http_get BINANCE_URL) (Raised e),
                 Call (Http_get COINGECKO_URL) (Returned_price p)])
           | Inl e' \<Rightarrow>
               (Inl e',
                [Call (Http_get BINANCE_URL) (Raised e),
                 Call (Http_get COINGECKO_URL) (Raised e')])))"
  by (simp add: get_mon_usd_price_def io_try_def io_bind_def extern_def io_return_def
      split: sum.splits)

text \<open>
  \<^bold>\<open>C2\<close>, amended. \<open>get_mon_usd_price\<close> raises exactly when the cached entry is not
  younger than the TTL (never populated, or expired) and both sources fail. If the entry
  is younger than the TTL it is returned without any fetch; otherwise the primary
  source's value is returned and cached, or else the secondary's. An expired entry is
  never returned by the getter: when the getter raises, the polling loop leaves its state,
  and so its last known price, as it was.
\<close>

theorem getter_fails_iff_entry_stale_and_both_sources_fail:
  "((\<exists>e. fst (get_mon_usd_price cache w) = Inl e) \<longleftrightarrow>
      \<not> cache_fresh cache (time_check w) \<and> (\<exists>e. binance w = Inl e) \<and>
      (\<exists>e. coingecko w = Inl e)) \<and>
   (cache_fresh cache (time_check w) \<longrightarrow>
      get_mon_usd_price cache w = (Inr (fst cache, cache), [])) \<and>
   (\<not> cache_fresh cache (time_check w) \<longrightarrow>
      (\<forall>p. binance w = Inr p \<longrightarrow>
         fst (get_mon_usd_price cache w) = Inr (p, (p, time_binance w))) \<and>
      (\<forall>e p. binance w = Inl e \<and> coingecko w = Inr p \<longrightarrow>
         fst (get_mon_usd_price cache w) = Inr (p, (p, time_coingecko w))) \<and>
      (\<forall>e e'. binance w = Inl e \<and> coingecko w = Inl e' \<longrightarrow>
         fst (get_mon_usd_price cache w) = Inl e')) \<and>
   (\<forall>s cw e. fst (get_mon_usd_price (mon_usd_cache s) (price_w cw)) = Inl e \<longrightarrow>
      fst (refresh_price s cw) = s)"
  by (auto simp: get_price_cases refresh_price_def split: sum.splits prod.splits)

theorem getter_fails_iff_entry_stale_and_both_sources_fail_witness:
  "\<not> cache_fresh (usd_125_40, 1700000001) (time_check outage) \<and>
   binance outage = Inl (Exception ''binance: read timed out'') \<and>
   coingecko outage = Inl (Exception ''coingecko: 429'') \<and>
   fst (get_mon_usd_price (usd_125_40, 1700000001) outage) = Inl (Exception ''coingecko: 429'') \<and>
   fst (get_mon_usd_price (mon_usd_cache warm_state) (price_w outage_cycle)) =
     Inl (Exception ''coingecko: 429'') \<and>
   fst (refresh_price warm_state outage_cycle) = warm_state \<and>
   cache_fresh (usd_125_40, 1700000001) (time_check (price_w later_cycle)) \<and>
   get_mon_usd_price (usd_125_40, 1700000001) (price_w later_cycle) =
     (Inr (usd_125_40, (usd_125_40, 1700000001)), [])"
proof -
  have h1: "\<not> cache_fresh (usd_125_40, 1700000001) (time_check outage)"
    by (simp add: outage_def warm_cache_expired)
  have h2: "binance outage = Inl (Exception ''binance: read timed out'')"
    and h3: "coingecko outage = Inl (Exception ''coingecko: 429'')"
    by (simp_all add: outage_def)
  have h4: "fst (get_mon_usd_price (mon_usd_cache warm_state) (price_w outage_cycle)) =
              Inl (Exception ''coingecko: 429'')"
    by (simp add: warm_state_def outage_cycle_def get_price_warm_outage)
  have h5: "cache_fresh (usd_125_40, 1700000001) (time_check (price_w later_cycle))"
    by (simp add: later_cycle_def live_feed_def warm_cache_is_fresh)
  note a = getter_fails_iff_entry_stale_and_both_sources_fail
             [of "(usd_125_40, 1700000001)" outage]
  note b = getter_fails_iff_entry_stale_and_both_sources_fail
             [of "(usd_125_40, 1700000001)" "price_w later_cycle"]
  from a h1 h2 h3 have "fst (get_mon_usd_price (usd_125_40, 1700000001) outage) =
      Inl (Exception ''coingecko: 429'')"
    by blast
  moreover from a h4 have "fst (refresh_price warm_state outage_cycle) = warm_state"
    by blast
  moreover from b h5 have "get_mon_usd_price (usd_125_40, 1700000001) (price_w later_cycle) =
      (Inr (usd_125_40, (usd_125_40, 1700000001)), [])"
    by simp
  ultimately show ?thesis
    using h1 h2 h3 h4 h5 by blast
qed

section \<open>Rounding\<close>

text \<open>\<open>ilog\<close> is the integer logarithm, so \<open>to_double\<close> and \<open>decimal_round\<close> round to the
  nearest multiple of the unit in the last place of their argument; in the normal range
  a float is within \<open>2 ^ -53\<close> of the real it rounds, relative to that real, and a
  28-digit Decimal within \<open>10 ^ -27 / 2\<close>.\<close>

lemma pow_nonneg_exp: "0 \<le> e \<Longrightarrow> pow b e = real b ^ nat e"
  by (simp add: pow_def)

lemma pow_neg_exp: "e < 0 \<Longrightarrow> pow b e = 1 / real b ^ nat (- e)"
  by (simp add: pow_def)

lemma ilog_bounds:
  assumes b: "1 < b" and x: "0 < x"
  shows "pow b (ilog b x) \<le> x \<and> x < pow b (ilog b x + 1)"
proof (cases "1 \<le> x")
  case True
  let ?n = "nat \<lfloor>x\<rfloor>"
  let ?k = "floorlog b ?n"
  have n: "0 < ?n" using True by simp
  from floorlog_bounds [OF n b] have fb: "b ^ (?k - 1) \<le> ?n" "?n < b ^ ?k"
    by simp_all
  have k: "0 < ?k"
    using n b by (simp add: floorlog_def)
  have il: "ilog b x = int ?k - 1"
    using True by (simp add: ilog_def)
  have "real (b ^ (?k - 1)) \<le> real ?n"
    using fb(1) by (simp only: of_nat_le_iff)
  also have "real ?n \<le> x"
    using True by simp
  finally have lo: "real b ^ (?k - 1) \<le> x"
    by simp
  have "?n + 1 \<le> b ^ ?k"
    using fb(2) by simp
  then have "real (?n + 1) \<le> real (b ^ ?k)"
    by (simp only: of_nat_le_iff)
  moreover have "x < real (?n + 1)"
    using True by simp linarith
  ultimately have hi: "x < real b ^ ?k"
    by simp
  have "nat (int ?k - 1) = ?k - 1" "nat (int ?k) = ?k"
    by simp_all
  with lo hi k il show ?thesis
    by (simp add: pow_def)
next
  case False
  let ?y = "1 / x"
  let ?m = "nat (\<lceil>?y\<rceil> - 1)"
  let ?k = "floorlog b ?m"
  from False x have y: "1 < ?y" by simp
  then have c: "2 \<le> \<lceil>?y\<rceil>"
    by (simp add: le_ceiling_iff)
  then have m: "0 < ?m" by simp
  from floorlog_bounds [OF m b] have fb: "b ^ (?k - 1) \<le> ?m" "?m < b ^ ?k"
    by simp_all
  have k: "0 < ?k"
    using m b by (simp add: floorlog_def)
  have il: "ilog b x = - int ?k"
    using False by (simp add: ilog_def)
  have "0 \<le> \<lceil>?y\<rceil> - 1"
    using c by linarith
  then have "real ?m = real_of_int (\<lceil>?y\<rceil> - 1)"
    by (rule of_nat_nat)
  then have mr: "real ?m = real_of_int \<lceil>?y\<rceil> - 1"
    by simp
  have "real (b ^ (?k - 1)) \<le> real ?m"
    using fb(1) by (simp only: of_nat_le_iff)
  also have "real ?m < ?y"
    unfolding mr by linarith
  finally have lo: "real b ^ (?k - 1) < ?y"
    by simp
  have "?m + 1 \<le> b ^ ?k"
    using fb(2) by simp
  then have "real (?m + 1) \<le> real (b ^ ?k)"
    by (simp only: of_nat_le_iff)
  moreover have "?y \<le> real (?m + 1)"
    using mr by simp
  ultimately have hi: "?y \<le> real b ^ ?k"
    by simp
  have bp: "0 < real b ^ j" for j
    using b by simp
  from hi x bp [of ?k] have 1: "1 / real b ^ ?k \<le> x"
    by (simp add: field_simps)
  from lo x bp [of "?k - 1"] have 2: "x < 1 / real b ^ (?k - 1)"
    by (simp add: field_simps)
  show ?thesis
  proof (cases "?k = 1")
    case True
    with 1 2 il show ?thesis
      by (simp add: pow_def)
  next
    case False
    with k have "1 < ?k" by simp
    then have "nat (int ?k - 1) = ?k - 1" "- int ?k + 1 < 0"
      by simp_all
    with 1 2 il k show ?thesis
      by (simp add: pow_def)
  qed
qed

lemma round_half_even_nearest: "\<bar>real_of_int (round_half_even y) - y\<bar> \<le> 1 / 2"
  unfolding round_half_even_def by (auto; linarith)

lemma round_to_unit_nearest:
  assumes "0 < u"
  shows "\<bar>round_to_unit u x - x\<bar> \<le> u / 2"
proof -
  have "round_to_unit u x - x = (real_of_int (round_half_even (x / u)) - x / u) * u"
    using assms by (simp add: round_to_unit_def algebra_simps)
  then have "\<bar>round_to_unit u x - x\<bar> = \<bar>real_of_int (round_half_even (x / u)) - x / u\<bar> * u"
    using assms by (simp add: abs_mult)
  also have "\<dots> \<le> (1 / 2) * u"
    using round_half_even_nearest [of "x / u"] assms by (intro mult_right_mono) simp_all
  finally show ?thesis by simp
qed

lemma pow_powi: "0 < b \<Longrightarrow> pow b e = real b powi e"
  by (simp add: pow_def power_int_def field_simps)

lemma pow_mono: "1 \<le> b \<Longrightarrow> e \<le> e' \<Longrightarrow> pow b e \<le> pow b e'"
  by (simp add: pow_powi power_int_increasing)

lemma pow_shift: "0 < b \<Longrightarrow> pow b (e - int k) = pow b e / real b ^ k"
  by (simp add: pow_powi power_int_diff)

lemma bracketed_trans:
  assumes "bracketed l1 h1 x y" and "bracketed l2 h2 y z" and "0 \<le> l2" and "0 \<le> h2"
  shows "bracketed (l1 * l2) (h1 * h2) x z"
proof -
  from assms have "l2 * (l1 * x) \<le> l2 * y" "h2 * y \<le> h2 * (h1 * x)"
    by (simp_all add: bracketed_def mult_left_mono)
  with assms(2) show ?thesis
    by (simp add: bracketed_def algebra_simps)
qed

lemma bracketed_mult:
  assumes "bracketed l1 h1 x y" and "bracketed l2 h2 x' y'"
    and "0 \<le> x" and "0 \<le> x'" and "0 \<le> l1" and "0 \<le> l2"
  shows "bracketed (l1 * l2) (h1 * h2) (x * x') (y * y')"
proof -
  from assms have a: "l1 * x \<le> y" "y \<le> h1 * x" "l2 * x' \<le> y'" "y' \<le> h2 * x'"
    by (simp_all add: bracketed_def)
  from assms have p: "0 \<le> l1 * x" "0 \<le> l2 * x'"
    by simp_all
  with a have y: "0 \<le> y" "0 \<le> y'"
    by linarith+
  from a p have "(l1 * x) * (l2 * x') \<le> y * y'"
    by (intro mult_mono) simp_all
  moreover from a y have "y * y' \<le> (h1 * x) * (h2 * x')"
    by (intro mult_mono) linarith+
  ultimately show ?thesis
    by (simp add: bracketed_def algebra_simps)
qed

lemma bracketed_scale:
  assumes "bracketed l h x y" and "0 \<le> c"
  shows "bracketed l h (x * c) (y * c)"
  using assms by (simp add: bracketed_def mult_right_mono mult.assoc [symmetric])

lemma round_to_unit_bracketed:
  assumes "0 < u" and "u \<le> x / c" and "0 < c"
  shows "bracketed (1 - 1 / (2 * c)) (1 + 1 / (2 * c)) x (round_to_unit u x)"
proof -
  from round_to_unit_nearest [OF assms(1), of x]
  have "x - u / 2 \<le> round_to_unit u x" "round_to_unit u x \<le> x + u / 2"
    by linarith+
  moreover from assms have "u / 2 \<le> x / (2 * c)"
    by (simp add: field_simps)
  ultimately show ?thesis
    by (simp add: bracketed_def algebra_simps)
qed

lemma to_double_bracketed:
  assumes lo: "1 / 2 ^ 1022 \<le> x" and hi: "x < 2 ^ 1023"
  shows "\<exists>y. to_double x = Finite y \<and> bracketed (1 - 1 / 2 ^ 53) (1 + 1 / 2 ^ 53) x y"
proof -
  from lo have x: "0 < x"
    by (rule less_le_trans [rotated]) simp
  let ?e = "ilog 2 x"
  from ilog_bounds [of 2 x] x have ib: "pow 2 ?e \<le> x" "x < pow 2 (?e + 1)"
    by simp_all
  have e: "- 1022 \<le> ?e"
  proof (rule ccontr)
    assume "\<not> - 1022 \<le> ?e"
    then have "?e + 1 \<le> - 1022" by simp
    then have "pow 2 (?e + 1) \<le> pow 2 (- 1022)"
      by (intro pow_mono) simp_all
    with ib(2) lo show False
      by (simp add: pow_def)
  qed
  let ?u = "pow 2 (?e - 52)"
  have u: "?u = pow 2 ?e / 2 ^ 52"
    using pow_shift [of 2 ?e 52] by simp
  have up: "0 < ?u"
    by (simp add: pow_def)
  from u ib(1) have ux: "?u \<le> x / 2 ^ 52"
    by (simp add: divide_right_mono)
  from round_to_unit_bracketed [OF up ux]
  have w: "bracketed (1 - 1 / 2 ^ 53) (1 + 1 / 2 ^ 53) x (round_to_unit ?u x)"
    by simp
  then have "round_to_unit ?u x \<le> (1 + 1 / 2 ^ 53) * x" "0 \<le> round_to_unit ?u x"
    using x by (auto simp: bracketed_def intro: order_trans [of 0 "(1 - 1 / 2 ^ 53) * x"])
  moreover have "(1 + 1 / 2 ^ 53) * x < 2 * 2 ^ 1023"
    using hi x by (intro mult_strict_mono) simp_all
  ultimately have "\<bar>round_to_unit ?u x\<bar> < pow 2 1024"
    by (simp add: pow_def)
  with x e w show ?thesis
    by (simp add: to_double_def max_def)
qed

lemma decimal_round_bracketed:
  assumes x: "0 < x"
  shows "bracketed (1 - 1 / (2 * 10 ^ 27)) (1 + 1 / (2 * 10 ^ 27)) x (decimal_round 28 x)"
proof -
  let ?e = "ilog 10 x"
  from ilog_bounds [of 10 x] x have ib: "pow 10 ?e \<le> x"
    by simp
  let ?u = "pow 10 (?e - 27)"
  have u: "?u = pow 10 ?e / 10 ^ 27"
    using pow_shift [of 10 ?e 27] by simp
  have up: "0 < ?u"
    by (simp add: pow_def)
  from u ib have ux: "?u \<le> x / 10 ^ 27"
    by (simp add: divide_right_mono)
  from round_to_unit_bracketed [OF up ux] x show ?thesis
    by (simp add: decimal_round_def)
qed

lemma bracketed_range:
  assumes "bracketed l h x y" and "1 / 2 \<le> l" and "h \<le> 2" and "lo \<le> x" and "x \<le> hi"
    and "0 < lo"
  shows "lo / 2 \<le> y \<and> y \<le> 2 * hi"
proof -
  from assms have x: "0 < x" by simp
  from assms x have "(1 / 2) * lo \<le> l * x"
    by (intro mult_mono) simp_all
  moreover from assms x have "h * x \<le> 2 * hi"
    by (intro mult_mono) simp_all
  ultimately show ?thesis
    using assms(1) by (simp add: bracketed_def)
qed

lemma unat_real_bounds:
  fixes n :: uint256
  shows "real (unat n) < 2 ^ 256" and "n \<noteq> 0 \<Longrightarrow> 1 \<le> real (unat n)"
proof -
  have "unat n < 2 ^ 256"
    using unsigned_less [of n, where 'a = nat] by simp
  then have "real (unat n) < real (2 ^ 256)"
    by (simp only: of_nat_less_iff)
  then show "real (unat n) < 2 ^ 256"
    by (simp del: of_nat_unat)
  assume "n \<noteq> 0"
  then have "1 \<le> unat n"
    by (simp add: unat_gt_0 Suc_le_eq)
  then have "real 1 \<le> real (unat n)"
    by (simp only: of_nat_le_iff)
  then show "1 \<le> real (unat n)"
    by (simp del: of_nat_unat)
qed

lemma market_cap_close_to_exact:
  fixes amount_out total :: uint256
  assumes a: "amount_out \<noteq> 0" and s: "total \<noteq> 0"
    and usd: "1 / 10 ^ 100 \<le> usd" "usd \<le> 10 ^ 100"
  shows "\<exists>m. market_cap_usd amount_out total usd = Finite m \<and>
           \<bar>m - 10 ^ 18 / real (unat amount_out) * (real (unat total) / 10 ^ 18) * usd\<bar>
             \<le> 10 ^ 18 / real (unat amount_out) * (real (unat total) / 10 ^ 18) * usd / 2 ^ 50"
proof -
  define A where "A = real (unat amount_out)"
  define B where "B = real (unat total)"
  define U where "U = 10 ^ 18 / A"
  define S where "S = B / 10 ^ 18"
  define d :: real where "d = 1 / (2 * 10 ^ 27)"
  define e :: real where "e = 1 / 2 ^ 53"
  have A: "1 \<le> A" "A < 2 ^ 256" and B: "1 \<le> B" "B < 2 ^ 256"
    using unat_real_bounds [of amount_out] unat_real_bounds [of total] a s
    by (simp_all add: A_def B_def del: of_nat_unat)
  have U: "1 / 2 ^ 256 \<le> U" "U \<le> 2 ^ 60"
  proof -
    have "1 / 2 ^ 256 \<le> 10 ^ 18 / (2 ^ 256 :: real)"
      by simp
    also have "\<dots> \<le> 10 ^ 18 / A"
      using A by (intro divide_left_mono) simp_all
    finally show "1 / 2 ^ 256 \<le> U"
      by (simp add: U_def)
    have "10 ^ 18 / A \<le> 10 ^ 18 / 1"
      using A by (intro divide_left_mono) simp_all
    then show "U \<le> 2 ^ 60"
      by (simp add: U_def)
  qed
  have S: "1 / 2 ^ 60 \<le> S" "S \<le> 2 ^ 256"
  proof -
    have "1 / 2 ^ 60 \<le> 1 / (10 ^ 18 :: real)"
      by simp
    also have "\<dots> \<le> B / 10 ^ 18"
      using B by (intro divide_right_mono) simp_all
    finally show "1 / 2 ^ 60 \<le> S"
      by (simp add: S_def)
    have "B / 10 ^ 18 \<le> B / 1"
      using B by (intro divide_left_mono) simp_all
    with B show "S \<le> 2 ^ 256"
      by (simp add: S_def)
  qed
  have de: "0 \<le> 1 - e" "0 \<le> 1 + e" "0 \<le> 1 - d"
    by (simp_all add: d_def e_def)
  \<comment> \<open>the unit price\<close>
  have Upos: "0 < U"
    using U(1) by (rule less_le_trans [rotated]) simp
  have b1: "bracketed (1 - d) (1 + d) U (decimal_round 28 U)"
    using decimal_round_bracketed [OF Upos] by (simp add: d_def)
  have "1 / 2 ^ 256 / 2 \<le> decimal_round 28 U \<and> decimal_round 28 U \<le> 2 * 2 ^ 60"
    by (rule bracketed_range [OF b1 _ _ U]) (simp_all add: d_def)
  then have "1 / 2 ^ 1022 \<le> decimal_round 28 U" "decimal_round 28 U < 2 ^ 1023"
    by (auto intro: order_trans [rotated] le_less_trans)
  from to_double_bracketed [OF this] obtain U2 where
    U2: "to_double (decimal_round 28 U) = Finite U2"
    and bU2: "bracketed (1 - e) (1 + e) (decimal_round 28 U) U2"
    by (auto simp: e_def)
  have b2: "bracketed ((1 - d) * (1 - e)) ((1 + d) * (1 + e)) U U2"
    by (rule bracketed_trans [OF b1 bU2 de(1,2)])
  \<comment> \<open>the total\<close>
  have "1 / 2 ^ 1022 \<le> S" "S < 2 ^ 1023"
    using S by (auto intro: order_trans [rotated] le_less_trans)
  from to_double_bracketed [OF this] obtain S1 where
    S1: "to_double S = Finite S1" and b3: "bracketed (1 - e) (1 + e) S S1"
    by (auto simp: e_def)
  \<comment> \<open>their product\<close>
  have Spos: "0 < S"
    using S(1) by (rule less_le_trans [rotated]) simp
  have p: "bracketed ((1 - d) * (1 - e) * (1 - e)) ((1 + d) * (1 + e) * (1 + e)) (U * S) (U2 * S1)"
    using Upos Spos de by (intro bracketed_mult [OF b2 b3]) simp_all
  have US: "1 / 2 ^ 256 * (1 / 2 ^ 60) \<le> U * S" "U * S \<le> 2 ^ 60 * 2 ^ 256"
  proof -
    show "1 / 2 ^ 256 * (1 / 2 ^ 60) \<le> U * S"
      by (rule mult_mono [OF U(1) S(1)]) (use Upos in simp_all)
    show "U * S \<le> 2 ^ 60 * 2 ^ 256"
      by (rule mult_mono [OF U(2) S(2)]) (use Spos in simp_all)
  qed
  have "1 / 2 ^ 256 * (1 / 2 ^ 60) / 2 \<le> U2 * S1 \<and> U2 * S1 \<le> 2 * (2 ^ 60 * 2 ^ 256)"
    by (rule bracketed_range [OF p _ _ US]) (simp_all add: d_def e_def)
  then have "1 / 2 ^ 1022 \<le> U2 * S1" "U2 * S1 < 2 ^ 1023"
    by (auto intro: order_trans [rotated] le_less_trans)
  from to_double_bracketed [OF this] obtain P1 where
    P1: "to_double (U2 * S1) = Finite P1" and bP1: "bracketed (1 - e) (1 + e) (U2 * S1) P1"
    by (auto simp: e_def)
  have p1: "bracketed ((1 - d) * (1 - e) * (1 - e) * (1 - e))
              ((1 + d) * (1 + e) * (1 + e) * (1 + e)) (U * S) P1"
    by (rule bracketed_trans [OF p bP1 de(1,2)])
  \<comment> \<open>times the reference price\<close>
  have usd0: "0 < usd"
    using usd(1) by (rule less_le_trans [rotated]) simp
  then have "0 \<le> usd"
    by simp
  with p1
  have q: "bracketed ((1 - d) * (1 - e) * (1 - e) * (1 - e)) ((1 + d) * (1 + e) * (1 + e) * (1 + e))
             (U * S * usd) (P1 * usd)"
    by (rule bracketed_scale)
  have X: "1 / 2 ^ 256 * (1 / 2 ^ 60) * (1 / 10 ^ 100) \<le> U * S * usd"
          "U * S * usd \<le> 2 ^ 60 * 2 ^ 256 * 10 ^ 100"
  proof -
    show "1 / 2 ^ 256 * (1 / 2 ^ 60) * (1 / 10 ^ 100) \<le> U * S * usd"
      by (rule mult_mono [OF US(1) usd(1)]) (use Upos Spos in simp_all)
    show "U * S * usd \<le> 2 ^ 60 * 2 ^ 256 * 10 ^ 100"
      by (rule mult_mono [OF US(2) usd(2)]) (use usd0 in simp_all)
  qed
  have "1 / 2 ^ 256 * (1 / 2 ^ 60) * (1 / 10 ^ 100) / 2 \<le> P1 * usd \<and>
        P1 * usd \<le> 2 * (2 ^ 60 * 2 ^ 256 * 10 ^ 100)"
    by (rule bracketed_range [OF q _ _ X]) (simp_all add: d_def e_def)
  then have "1 / 2 ^ 1022 \<le> P1 * usd" "P1 * usd < 2 ^ 1023"
    by (auto intro: order_trans [rotated] le_less_trans)
  from to_double_bracketed [OF this] obtain M where
    M: "to_double (P1 * usd) = Finite M" and bM: "bracketed (1 - e) (1 + e) (P1 * usd) M"
    by (auto simp: e_def)
  have m: "bracketed ((1 - d) * (1 - e) * (1 - e) * (1 - e) * (1 - e))
             ((1 + d) * (1 + e) * (1 + e) * (1 + e) * (1 + e)) (U * S * usd) M"
    by (rule bracketed_trans [OF q bM de(1,2)])
  have lb: "1 - 1 / 2 ^ 50 \<le> (1 - d) * (1 - e) * (1 - e) * (1 - e) * (1 - e)"
    and ub: "(1 + d) * (1 + e) * (1 + e) * (1 + e) * (1 + e) \<le> 1 + 1 / 2 ^ 50"
    by (simp_all add: d_def e_def)
  have X0: "0 \<le> U * S * usd"
    using Upos Spos usd0 by simp
  have "(1 - 1 / 2 ^ 50) * (U * S * usd)
          \<le> (1 - d) * (1 - e) * (1 - e) * (1 - e) * (1 - e) * (U * S * usd)"
    by (rule mult_right_mono [OF lb X0])
  moreover have "(1 + d) * (1 + e) * (1 + e) * (1 + e) * (1 + e) * (U * S * usd)
          \<le> (1 + 1 / 2 ^ 50) * (U * S * usd)"
    by (rule mult_right_mono [OF ub X0])
  ultimately
  have "(1 - 1 / 2 ^ 50) * (U * S * usd) \<le> M" "M \<le> (1 + 1 / 2 ^ 50) * (U * S * usd)"
    using m unfolding bracketed_def by linarith+
  note mb = this
  define X where "X = U * S * usd"
  have "(1 - 1 / 2 ^ 50) * X \<le> M" "M \<le> (1 + 1 / 2 ^ 50) * X"
    unfolding X_def by (rule mb)+
  then have "M - X \<le> X / 2 ^ 50" "- (M - X) \<le> X / 2 ^ 50"
    by (simp_all add: field_simps)
  then have "\<bar>M - X\<bar> \<le> X / 2 ^ 50"
    by (rule abs_leI)
  then have err: "\<bar>M - U * S * usd\<bar> \<le> U * S * usd / 2 ^ 50"
    by (simp only: X_def)
  \<comment> \<open>what \<open>fetch_price\<close> computes\<close>
  have "A / 10 ^ 18 \<noteq> 0" "1 / (A / 10 ^ 18) = U"
    using A by (simp_all add: U_def)
  with a have "reciprocal_or_zero (from_wei amount_out) = Dec (decimal_round 28 U)"
    by (simp add: from_wei_def A_def del: of_nat_unat)
  moreover from s have "from_wei total = Dec S"
    by (simp add: from_wei_def S_def B_def del: of_nat_unat)
  ultimately have "market_cap_usd amount_out total usd = Finite M"
    by (simp add: market_cap_usd_def U2 S1 P1 M)
  with err show ?thesis
    by (simp add: U_def S_def A_def B_def del: of_nat_unat)
qed

text \<open>A float made from a \<open>uint256\<close> amount is finite.\<close>

lemma round_half_even_bounds: "real_of_int (round_half_even y) \<le> y + 1 \<and> y - 1 \<le> real_of_int (round_half_even y)"
  unfolding round_half_even_def by (auto; linarith)

lemma pow_pos: "0 < b \<Longrightarrow> 0 < pow b e"
  by (simp add: pow_def)

lemma pow2_mono: "e \<le> e' \<Longrightarrow> pow 2 e \<le> pow 2 e'"
proof -
  have p: "pow 2 e = 2 powi e" for e
    by (simp add: pow_def power_int_def field_simps)
  show "e \<le> e' \<Longrightarrow> pow 2 e \<le> pow 2 e'"
    unfolding p by (rule power_int_increasing) simp_all
qed

lemma round_to_unit_bound:
  assumes "0 < u"
  shows "\<bar>round_to_unit u x\<bar> \<le> \<bar>x\<bar> + u"
proof -
  let ?r = "real_of_int (round_half_even (x / u))"
  from round_half_even_bounds [of "x / u"] assms
  have "?r * u \<le> (x / u + 1) * u" "(x / u - 1) * u \<le> ?r * u"
    by (simp_all add: mult_right_mono)
  moreover have "(x / u + 1) * u = x + u" "(x / u - 1) * u = x - u"
    using assms by (simp_all add: algebra_simps)
  ultimately have "round_to_unit u x \<le> x + u" "x - u \<le> round_to_unit u x"
    by (simp_all add: round_to_unit_def)
  then show ?thesis by linarith
qed

lemma ilog2_upper:
  assumes "0 < x" and "x < 2 ^ n"
  shows "ilog 2 x \<le> int n"
proof (cases "1 \<le> x")
  case True
  have "nat \<lfloor>x\<rfloor> < 2 ^ n"
  proof -
    have "real_of_int \<lfloor>x\<rfloor> < 2 ^ n"
      using assms(2) by linarith
    then have "\<lfloor>x\<rfloor> < 2 ^ n"
      by (metis of_int_less_iff of_int_numeral of_int_power)
    then show ?thesis
      using True by (simp add: nat_less_iff)
  qed
  then have "floorlog 2 (nat \<lfloor>x\<rfloor>) \<le> n"
    by (intro floorlog_leI) simp_all
  with True show ?thesis
    by (simp add: ilog_def)
next
  case False
  then show ?thesis
    by (simp add: ilog_def)
qed

lemma to_double_finite:
  assumes "0 \<le> x" and "x < 2 ^ 256"
  shows "\<exists>y. to_double x = Finite y"
proof (cases "x = 0")
  case True
  then show ?thesis by (simp add: to_double_def)
next
  case False
  with assms have pos: "0 < x" by simp
  let ?e = "max (ilog 2 \<bar>x\<bar>) (- 1022)"
  let ?u = "pow 2 (?e - 52)"
  have "ilog 2 \<bar>x\<bar> \<le> 256"
    using ilog2_upper [of x 256] pos assms(2) by simp
  then have "?e - 52 \<le> 204"
    by simp
  then have "?u \<le> pow 2 204"
    by (rule pow2_mono)
  moreover have "\<bar>round_to_unit ?u x\<bar> \<le> \<bar>x\<bar> + ?u"
    by (rule round_to_unit_bound) (simp add: pow_pos)
  ultimately have "\<bar>round_to_unit ?u x\<bar> \<le> x + pow 2 204"
    using pos by simp
  also have "\<dots> < 2 ^ 256 + pow 2 204"
    using assms(2) by simp
  also have "\<dots> < pow 2 1024"
    by (simp add: pow_def)
  finally show ?thesis
    by (simp add: to_double_def)
qed

lemma py_float_from_wei_finite: "\<exists>y. py_float (from_wei n) = Finite y"
proof (cases "n = 0")
  case True
  then show ?thesis by (simp add: from_wei_def)
next
  case False
  have "unat n < 2 ^ 256"
    using unsigned_less [of n, where 'a = nat] by simp
  then have "real (unat n) < real (2 ^ 256)"
    by (simp only: of_nat_less_iff)
  moreover have "real (unat n) / 10 ^ 18 \<le> real (unat n) / 1"
    by (rule divide_left_mono) (simp_all del: of_nat_unat)
  ultimately have "real (unat n) / 10 ^ 18 < 2 ^ 256"
    by (simp del: of_nat_unat)
  moreover have "0 \<le> real (unat n) / 10 ^ 18"
    by (simp del: of_nat_unat)
  ultimately obtain y where "to_double (real (unat n) / 10 ^ 18) = Finite y"
    using to_double_finite by blast
  with False show ?thesis
    by (simp add: from_wei_def del: of_nat_unat)
qed

section \<open>The market snapshot\<close>

lemma fetch_price_result:
  assumes "buy_quote w = Inr (r, amount_out)" and "total_supply w = Inr supply"
    and "wallet_balance w = Inr bal"
  shows "fetch_price wallet symbol a usd w =
           (Inr (market_cap_usd amount_out supply usd),
            [Call (Lens_getAmountOut a ONE_MON True) (Returned_quote r (unat amount_out)),
             Call (Erc20_totalSupply a) (Returned_uint (unat supply)),
             Call (Erc20_balanceOf a wallet) (Returned_uint (unat bal)),
             Print (Msg_snapshot symbol (market_cap_usd amount_out supply usd)
                      (wallet_balance_usd amount_out bal usd))])"
  using assms
  by (simp add: prod_eq_iff fetch_price_def io_simps show_quote_def show_uint_def)

lemma spec_market_cap:
  "market_cap_usd 1000000000000000000000 1000000000000000000000000 usd_125_40 = Finite 125400"
  by (simp add: market_cap_usd_def float_eval usd_125_40_def)

lemma fetch_spec_market:
  "fetch_price wallet symbol a usd_125_40 spec_market =
     (Inr (Finite 125400),
      [Call (Lens_getAmountOut a ONE_MON True) (Returned_quote ''0xRouter'' 1000000000000000000000),
       Call (Erc20_totalSupply a) (Returned_uint 1000000000000000000000000),
       Call (Erc20_balanceOf a wallet) (Returned_uint 5000000000000000000000),
       Print (Msg_snapshot symbol (Finite 125400) (Finite 627))])"
  using fetch_price_result [of spec_market "''0xRouter''" 1000000000000000000000
      1000000000000000000000000 5000000000000000000000 wallet symbol a usd_125_40]
  by (simp add: spec_market_def spec_market_cap wallet_value_5000)

lemma spec_cycle_quiet:
  "filter sell_activity (snd (cycle wallet initial_state spec_cycle)) = [] \<and>
   \<not> tcg_sold (fst (cycle wallet initial_state spec_cycle))"
proof -
  have f: "price_w spec_cycle = live_feed" "market_w spec_cycle symbol = spec_market" for symbol
    by (simp_all add: spec_cycle_def)
  show ?thesis
    by (simp add: cycle_def refresh_live_feed TOKENS_def process_token_def fetch_spec_market f
          TCG_SELL_AT_def)
qed

text \<open>
  \<^bold>\<open>C7\<close>. When the three chain reads of \<open>fetch_price\<close> succeed, the market cap it returns
  is the float product (unit price \<open>*\<close> total supply) \<open>*\<close> reference price, the unit price
  being the reciprocal of the tokens quoted for one MON and the supply being counted in
  whole tokens. For a nonzero quote and supply and a reference price between \<open>10 ^ -100\<close>
  and \<open>10 ^ 100\<close>, that float is finite and differs from the exact product of the three
  quantities by at most \<open>2 ^ -50\<close> of it. With \<open>float("125.40")\<close> as reference price, a
  quote of 1000 tokens for the probe and a supply of 1,000,000 tokens, the market cap is
  exactly 125400.0; this is below the trigger of 900000, and an iteration of the loop that
  reads it neither invokes the sell executor nor submits a transaction.
\<close>

theorem market_cap_is_unit_price_times_supply_times_reference:
  assumes "buy_quote w = Inr (r, amount_out)" and "total_supply w = Inr supply"
    and "wallet_balance w = Inr bal"
  shows "fst (fetch_price wallet symbol a usd w) =
           Inr (fmul (fmul (py_float (reciprocal_or_zero (from_wei amount_out)))
                           (py_float (from_wei supply)))
                     (Finite usd)) \<and>
         (amount_out \<noteq> 0 \<and> supply \<noteq> 0 \<and> 1 / 10 ^ 100 \<le> usd \<and> usd \<le> 10 ^ 100 \<longrightarrow>
            (\<exists>m. fst (fetch_price wallet symbol a usd w) = Inr (Finite m) \<and>
               \<bar>m - 10 ^ 18 / real (unat amount_out) * (real (unat supply) / 10 ^ 18) * usd\<bar>
                 \<le> 10 ^ 18 / real (unat amount_out) * (real (unat supply) / 10 ^ 18) * usd
                    / 2 ^ 50)) \<and>
         to_double (1254 / 10) = Finite usd_125_40 \<and>
         fst (fetch_price wallet ''TCG'' TCG usd_125_40 spec_market) = Inr (Finite 125400) \<and>
         \<not> float_ge (Finite 125400) TCG_SELL_AT \<and>
         filter sell_activity (snd (cycle wallet initial_state spec_cycle)) = [] \<and>
         \<not> tcg_sold (fst (cycle wallet initial_state spec_cycle))"
proof (intro conjI)
  show "fst (fetch_price wallet symbol a usd w) =
           Inr (fmul (fmul (py_float (reciprocal_or_zero (from_wei amount_out)))
                           (py_float (from_wei supply)))
                     (Finite usd))"
    by (simp add: fetch_price_result [OF assms] market_cap_usd_def)
  show "amount_out \<noteq> 0 \<and> supply \<noteq> 0 \<and> 1 / 10 ^ 100 \<le> usd \<and> usd \<le> 10 ^ 100 \<longrightarrow>
            (\<exists>m. fst (fetch_price wallet symbol a usd w) = Inr (Finite m) \<and>
               \<bar>m - 10 ^ 18 / real (unat amount_out) * (real (unat supply) / 10 ^ 18) * usd\<bar>
                 \<le> 10 ^ 18 / real (unat amount_out) * (real (unat supply) / 10 ^ 18) * usd
                    / 2 ^ 50)"
    using market_cap_close_to_exact [of amount_out "supply" usd]
    by (simp add: fetch_price_result [OF assms] del: of_nat_unat)
  show "to_double (1254 / 10) = Finite usd_125_40"
    by (rule float_of_125_40)
  show "fst (fetch_price wallet ''TCG'' TCG usd_125_40 spec_market) = Inr (Finite 125400)"
    by (simp add: fetch_spec_market)
  show "\<not> float_ge (Finite 125400) TCG_SELL_AT"
    by (simp add: TCG_SELL_AT_def)
  show "filter sell_activity (snd (cycle wallet initial_state spec_cycle)) = []"
    and "\<not> tcg_sold (fst (cycle wallet initial_state spec_cycle))"
    using spec_cycle_quiet [of wallet] by simp_all
qed

theorem market_cap_is_unit_price_times_supply_times_reference_witness:
  "buy_quote spec_market = Inr (''0xRouter'', 1000000000000000000000) \<and>
   total_supply spec_market = Inr 1000000000000000000000000 \<and>
   wallet_balance spec_market = Inr 5000000000000000000000 \<and>
   fst (fetch_price ''0xWallet'' ''TCG'' TCG usd_125_40 spec_market) =
     Inr (fmul (fmul (py_float (reciprocal_or_zero (from_wei 1000000000000000000000)))
                     (py_float (from_wei 1000000000000000000000000)))
               (Finite usd_125_40)) \<and>
   fst (fetch_price ''0xWallet'' ''TCG'' TCG usd_125_40 spec_market) = Inr (Finite 125400) \<and>
   (1000000000000000000000 :: uint256) \<noteq> 0 \<and> (1000000000000000000000000 :: uint256) \<noteq> 0 \<and>
   1 / 10 ^ 100 \<le> usd_125_40 \<and> usd_125_40 \<le> 10 ^ 100 \<and>
   \<bar>125400 - 10 ^ 18 / real (unat (1000000000000000000000 :: uint256)) *
               (real (unat (1000000000000000000000000 :: uint256)) / 10 ^ 18) * usd_125_40\<bar>
     \<le> 10 ^ 18 / real (unat (1000000000000000000000 :: uint256)) *
          (real (unat (1000000000000000000000000 :: uint256)) / 10 ^ 18) * usd_125_40 / 2 ^ 50"
proof -
  have h1: "buy_quote spec_market = Inr (''0xRouter'', 1000000000000000000000)"
    and h2: "total_supply spec_market = Inr 1000000000000000000000000"
    and h3: "wallet_balance spec_market = Inr 5000000000000000000000"
    by (simp_all add: spec_market_def)
  have h4: "(1000000000000000000000 :: uint256) \<noteq> 0"
    and h5: "(1000000000000000000000000 :: uint256) \<noteq> 0"
    by simp_all
  have h6: "1 / 10 ^ 100 \<le> usd_125_40" and h7: "usd_125_40 \<le> 10 ^ 100"
    by (simp_all add: usd_125_40_def)
  note c = market_cap_is_unit_price_times_supply_times_reference
             [OF h1 h2 h3, of "''0xWallet''" "''TCG''" TCG usd_125_40]
  from c have v: "fst (fetch_price ''0xWallet'' ''TCG'' TCG usd_125_40 spec_market) =
      Inr (Finite 125400)"
    by blast
  from c h4 h5 h6 h7 obtain m where
    "fst (fetch_price ''0xWallet'' ''TCG'' TCG usd_125_40 spec_market) = Inr (Finite m)"
    "\<bar>m - 10 ^ 18 / real (unat (1000000000000000000000 :: uint256)) *
               (real (unat (1000000000000000000000000 :: uint256)) / 10 ^ 18) * usd_125_40\<bar>
     \<le> 10 ^ 18 / real (unat (1000000000000000000000 :: uint256)) *
          (real (unat (1000000000000000000000000 :: uint256)) / 10 ^ 18) * usd_125_40 / 2 ^ 50"
    by blast
  with v have "\<bar>125400 - 10 ^ 18 / real (unat (1000000000000000000000 :: uint256)) *
               (real (unat (1000000000000000000000000 :: uint256)) / 10 ^ 18) * usd_125_40\<bar>
     \<le> 10 ^ 18 / real (unat (1000000000000000000000 :: uint256)) *
          (real (unat (1000000000000000000000000 :: uint256)) / 10 ^ 18) * usd_125_40 / 2 ^ 50"
    by simp
  with c v h1 h2 h3 h4 h5 h6 h7 show ?thesis
    by blast
qed

lemma zero_unit_price: "reciprocal_or_zero (from_wei 0) = Int_zero"
  by (simp add: from_wei_def)

lemma zero_quote_figures:
  "market_cap_usd 0 supply usd = Finite 0 \<and> wallet_balance_usd 0 bal usd = Finite 0"
proof -
  obtain y where y: "py_float (from_wei supply) = Finite y"
    using py_float_from_wei_finite by blast
  obtain z where z: "py_float (from_wei bal) = Finite z"
    using py_float_from_wei_finite by blast
  show ?thesis
    by (simp add: market_cap_usd_def wallet_balance_usd_def zero_unit_price y z to_double_def)
qed

text \<open>
  \<^bold>\<open>C8\<close>. If the lens answers the probe with a quote of zero tokens, the reciprocal is
  not computed: the unit price is the integer 0, whose float is 0.0. \<open>fetch_price\<close> then
  raises only if one of its two remaining reads raises; when they answer, it returns the
  market cap 0.0 and prints the owned value 0.0, for every total supply, every wallet
  balance and every reference price.
\<close>

theorem zero_quote_gives_zero_figures:
  assumes "buy_quote w = Inr (r, 0)"
  shows "reciprocal_or_zero (from_wei 0) = Int_zero \<and> py_float Int_zero = Finite 0 \<and>
         (\<forall>supply bal. total_supply w = Inr supply \<and> wallet_balance w = Inr bal \<longrightarrow>
            fetch_price wallet symbol a usd w =
              (Inr (Finite 0),
               [Call (Lens_getAmountOut a ONE_MON True) (Returned_quote r 0),
                Call (Erc20_totalSupply a) (Returned_uint (unat supply)),
                Call (Erc20_balanceOf a wallet) (Returned_uint (unat bal)),
                Print (Msg_snapshot symbol (Finite 0) (Finite 0))])) \<and>
         (\<forall>e. fst (fetch_price wallet symbol a usd w) = Inl e \<longleftrightarrow>
            total_supply w = Inl e \<or>
            (\<exists>supply. total_supply w = Inr supply \<and> wallet_balance w = Inl e))"
proof -
  have "fetch_price wallet symbol a usd w =
          (Inr (Finite 0),
           [Call (Lens_getAmountOut a ONE_MON True) (Returned_quote r 0),
            Call (Erc20_totalSupply a) (Returned_uint (unat total)),
            Call (Erc20_balanceOf a wallet) (Returned_uint (unat bal)),
            Print (Msg_snapshot symbol (Finite 0) (Finite 0))])"
    if "total_supply w = Inr total" "wallet_balance w = Inr bal" for total bal
    using that fetch_price_result [OF assms, of total bal wallet symbol a usd]
    by (simp add: zero_quote_figures)
  moreover have "fst (fetch_price wallet symbol a usd w) = Inl e \<longleftrightarrow>
            total_supply w = Inl e \<or>
            (\<exists>supply. total_supply w = Inr supply \<and> wallet_balance w = Inl e)" for e
    using assms by (auto simp: fetch_price_def io_simps split: sum.splits)
  ultimately show ?thesis
    by (simp add: zero_unit_price)
qed

theorem zero_quote_gives_zero_figures_witness:
  "buy_quote illiquid_market = Inr (''0xRouter'', 0) \<and>
   total_supply illiquid_market = Inr 1000000000000000000000000 \<and>
   wallet_balance illiquid_market = Inr 5000000000000000000000 \<and>
   fetch_price ''0xWallet'' ''TCG'' TCG usd_125_40 illiquid_market =
     (Inr (Finite 0),
      [Call (Lens_getAmountOut TCG ONE_MON True) (Returned_quote ''0xRouter'' 0),
       Call (Erc20_totalSupply TCG) (Returned_uint 1000000000000000000000000),
       Call (Erc20_balanceOf TCG ''0xWallet'') (Returned_uint 5000000000000000000000),
       Print (Msg_snapshot ''TCG'' (Finite 0) (Finite 0))])"
proof -
  have h1: "buy_quote illiquid_market = Inr (''0xRouter'', 0)"
    and h2: "total_supply illiquid_market = Inr 1000000000000000000000000"
    and h3: "wallet_balance illiquid_market = Inr 5000000000000000000000"
    by (simp_all add: illiquid_market_def)
  from zero_quote_gives_zero_figures [OF h1, of "''0xWallet''" "''TCG''" TCG usd_125_40] h2 h3
  have "fetch_price ''0xWallet'' ''TCG'' TCG usd_125_40 illiquid_market =
     (Inr (Finite 0),
      [Call (Lens_getAmountOut TCG ONE_MON True) (Returned_quote ''0xRouter'' 0),
       Call (Erc20_totalSupply TCG) (Returned_uint (unat (1000000000000000000000000 :: uint256))),
       Call (Erc20_balanceOf TCG ''0xWallet'')
         (Returned_uint (unat (5000000000000000000000 :: uint256))),
       Print (Msg_snapshot ''TCG'' (Finite 0) (Finite 0))])"
    by blast
  with h1 h2 h3 show ?thesis by simp
qed

section \<open>Containment of failures\<close>

lemma sell_all_tcg_no_sleep: "filter (\<lambda>ev. ev = Sleep n) (snd (sell_all_tcg wallet w)) = []"
  by (simp add: sell_all_tcg_def io_simps split: sum.splits prod.splits)

lemma sell_attempts_no_poll_sleep:
  "filter (\<lambda>ev. ev = Sleep POLL_INTERVAL) (snd (sell_attempts wallet sw atts)) = []"
proof (induction atts)
  case Nil
  show ?case by simp
next
  case (Cons attempt atts)
  with sell_all_tcg_no_sleep [of POLL_INTERVAL wallet "sw attempt"] show ?case
    by (auto simp: POLL_INTERVAL_def split: prod.splits sum.splits)
qed

lemma process_token_shape:
  "\<exists>post. snd (process_token wallet w s item) =
            snd (fetch_price wallet (fst item) (snd item) (mon_usd s) (market_w w (fst item))) @ post \<and>
          (\<forall>exc. fst (fetch_price wallet (fst item) (snd item) (mon_usd s) (market_w w (fst item))) = Inl exc
             \<longrightarrow> post = [Print (Msg_token_error (fst item) exc)] \<and>
                 fst (process_token wallet w s item) = s)"
  by (auto simp: process_token_def split: prod.splits sum.splits)

lemma process_token_no_poll_sleep:
  "filter (\<lambda>ev. ev = Sleep POLL_INTERVAL) (snd (process_token wallet w s item)) = []"
  using quiet_no_sleep [OF quiet_fetch, of POLL_INTERVAL wallet "fst item" "snd item" "mon_usd s"
      "market_w w (fst item)"]
    sell_attempts_no_poll_sleep [of wallet "sell_w w" "[1, 2, 3]"]
  by (auto simp: process_token_def simp del: sell_attempts.simps split: prod.splits sum.splits)

lemma for_tokens_no_poll_sleep:
  "filter (\<lambda>ev. ev = Sleep POLL_INTERVAL) (snd (for_tokens wallet w s items)) = []"
proof (induction items arbitrary: s)
  case Nil
  show ?case by simp
next
  case (Cons item items)
  from Cons [of "fst (process_token wallet w s item)"] process_token_no_poll_sleep [of wallet w s item]
  show ?case by (auto split: prod.splits)
qed

lemma cycle_sleeps_once:
  "filter (\<lambda>ev. ev = Sleep POLL_INTERVAL) (snd (cycle wallet s w)) = [Sleep POLL_INTERVAL]"
  using quiet_no_sleep [OF quiet_refresh, of POLL_INTERVAL s w]
    for_tokens_no_poll_sleep [of wallet w "fst (refresh_price s w)" TOKENS]
  by (auto simp: cycle_def split: prod.splits)

lemma run_sleeps:
  "length (filter (\<lambda>ev. ev = Sleep POLL_INTERVAL) (snd (run wallet s ws))) = length ws"
proof (induction ws arbitrary: s)
  case Nil
  show ?case by simp
next
  case (Cons w ws)
  from Cons [of "fst (cycle wallet s w)"] cycle_sleeps_once [of wallet s w]
  show ?case by (auto split: prod.splits)
qed

lemma for_tokens_reads_each:
  assumes "item \<in> set items"
  shows "\<exists>pre post.
           snd (for_tokens wallet w s items) =
             pre @ snd (fetch_price wallet (fst item) (snd item) (mon_usd s)
                          (market_w w (fst item))) @ post \<and>
           (\<forall>exc. fst (fetch_price wallet (fst item) (snd item) (mon_usd s)
                          (market_w w (fst item))) = Inl exc \<longrightarrow>
                  Print (Msg_token_error (fst item) exc) \<in> set (snd (for_tokens wallet w s items)))"
  using assms
proof (induction items arbitrary: s)
  case Nil
  then show ?case by simp
next
  case (Cons x items)
  let ?fetch = "\<lambda>s. fetch_price wallet (fst item) (snd item) (mon_usd s) (market_w w (fst item))"
  obtain s' tr where p: "process_token wallet w s x = (s', tr)"
    by (cases "process_token wallet w s x")
  obtain s'' tr' where f: "for_tokens wallet w s' items = (s'', tr')"
    by (cases "for_tokens wallet w s' items")
  have m: "mon_usd s' = mon_usd s"
    using process_token_keeps_price [of wallet w s x] p by simp
  show ?case
  proof (cases "item = x")
    case True
    from process_token_shape [of wallet w s x] p True obtain post where
      "tr = snd (?fetch s) @ post"
      "\<forall>exc. fst (?fetch s) = Inl exc \<longrightarrow> post = [Print (Msg_token_error (fst item) exc)]"
      by auto
    then show ?thesis
      using p f by (intro exI [of _ "[]"] exI [of _ "post @ tr'"]) auto
  next
    case False
    with Cons.prems have "item \<in> set items" by simp
    from Cons.IH [OF this, of s'] f m obtain pre post where
      "tr' = pre @ snd (?fetch s) @ post"
      "\<forall>exc. fst (?fetch s) = Inl exc \<longrightarrow> Print (Msg_token_error (fst item) exc) \<in> set tr'"
      by auto
    then show ?thesis
      using p f by (intro exI [of _ "tr @ pre"] exI [of _ post]) auto
  qed
qed

lemma process_token_failed_read:
  assumes "fst (fetch_price wallet (fst item) (snd item) (mon_usd st) (market_w w (fst item))) = Inl exc"
  shows "process_token wallet w st item =
           (st, snd (fetch_price wallet (fst item) (snd item) (mon_usd st) (market_w w (fst item)))
                @ [Print (Msg_token_error (fst item) exc)])"
  using assms by (auto simp: process_token_def split: prod.splits sum.splits)

lemma for_tokens_append:
  "for_tokens wallet w st (xs @ ys) =
     (fst (for_tokens wallet w (fst (for_tokens wallet w st xs)) ys),
      snd (for_tokens wallet w st xs) @ snd (for_tokens wallet w (fst (for_tokens wallet w st xs)) ys))"
  by (induction xs arbitrary: st) (simp_all split: prod.splits)

lemma for_tokens_skips_failed_read:
  assumes "fst (fetch_price wallet (fst item) (snd item) (mon_usd st) (market_w w (fst item))) = Inl exc"
  shows "for_tokens wallet w st (xs @ item # ys) =
           (fst (for_tokens wallet w st (xs @ ys)),
            snd (for_tokens wallet w st xs)
              @ snd (fetch_price wallet (fst item) (snd item) (mon_usd st) (market_w w (fst item)))
              @ [Print (Msg_token_error (fst item) exc)]
              @ snd (for_tokens wallet w (fst (for_tokens wallet w st xs)) ys))"
proof -
  let ?sx = "fst (for_tokens wallet w st xs)"
  have m: "mon_usd ?sx = mon_usd st"
    using for_tokens_keeps_price [of wallet w st xs] by simp
  with assms have
    "fst (fetch_price wallet (fst item) (snd item) (mon_usd ?sx) (market_w w (fst item))) = Inl exc"
    by simp
  from process_token_failed_read [OF this] m
  have p: "process_token wallet w ?sx item =
             (?sx, snd (fetch_price wallet (fst item) (snd item) (mon_usd st) (market_w w (fst item)))
                   @ [Print (Msg_token_error (fst item) exc)])"
    by simp
  show ?thesis
    by (simp add: for_tokens_append [of wallet w st xs] p split: prod.splits)
qed

lemma cycle_skips_failed_read:
  assumes T: "TOKENS = xs @ item # ys"
    and F: "fst (fetch_price wallet (fst item) (snd item) (mon_usd (fst (refresh_price s w)))
                   (market_w w (fst item))) = Inl exc"
  shows "cycle wallet s w =
           (fst (for_tokens wallet w (fst (refresh_price s w)) (xs @ ys)),
            snd (refresh_price s w)
              @ [Print (Msg_cycle (mon_usd (fst (refresh_price s w))))]
              @ snd (for_tokens wallet w (fst (refresh_price s w)) xs)
              @ snd (fetch_price wallet (fst item) (snd item) (mon_usd (fst (refresh_price s w)))
                       (market_w w (fst item)))
              @ [Print (Msg_token_error (fst item) exc)]
              @ snd (for_tokens wallet w
                       (fst (for_tokens wallet w (fst (refresh_price s w)) xs)) ys)
              @ [Print Msg_blank, Sleep POLL_INTERVAL])"
proof -
  obtain s1 tr1 where r: "refresh_price s w = (s1, tr1)"
    by (cases "refresh_price s w")
  with F have
    "fst (fetch_price wallet (fst item) (snd item) (mon_usd s1) (market_w w (fst item))) = Inl exc"
    by simp
  from for_tokens_skips_failed_read [OF this, of xs ys] r show ?thesis
    by (simp add: cycle_def T)
qed

lemma fetch_fire_down:
  "fst (fetch_price wallet ''FIRE'' FIRE usd (fire_down_market ''FIRE'')) =
     Inl (Exception ''execution reverted'')"
  by (simp add: fetch_price_def io_simps fire_down_market_def high_market_def)

lemma fire_down_cycle_fields:
  "price_w fire_down_cycle = live_feed" "market_w fire_down_cycle ''TCG'' = high_market"
  "market_w fire_down_cycle ''MONA'' = high_market"
  "market_w fire_down_cycle ''FIRE'' = fire_down_market ''FIRE''"
  "sell_w fire_down_cycle n = good_sale"
  by (simp_all add: fire_down_cycle_def fire_down_market_def)

lemma fire_down_cycle_sold: "tcg_sold (fst (cycle wallet initial_state fire_down_cycle))"
proof -
  have "reading_meets_threshold wallet initial_state fire_down_cycle"
    by (rule reading_high_initial) (simp_all add: fire_down_cycle_fields)
  moreover have "\<not> tcg_sold initial_state"
    by (simp add: initial_state_def)
  moreover have "attempt_succeeds wallet fire_down_cycle 1"
    unfolding attempt_succeeds_def fire_down_cycle_fields good_sale_run by simp
  ultimately show ?thesis
    using cycle_attempts [of initial_state wallet fire_down_cycle] by simp
qed

text \<open>
  \<^bold>\<open>C9\<close>. In every iteration, whatever the world answers and whichever reads raise, the
  trace holds, for each of the monitored tokens, the complete read of that token's
  snapshot with the answers the world gives for that token, and the error line of a read
  that raises. The iteration always ends with the blank line and the sleep of the poll
  interval, and an execution of \<open>n\<close> iterations sleeps the poll interval \<open>n\<close> times: no
  failure ends the loop. A token whose read raises is skipped and nothing else: handling it
  returns the state of the loop unchanged (so a failed read of TCG neither sets \<open>tcg_sold\<close>
  nor alters the price) and contributes to the trace its read and its error line only (so
  no trigger line, no sell attempt and no sleep). Hence an iteration in which the read of
  the token at some position of \<open>TOKENS\<close> raises ends in the state that handling the
  other tokens alone, in their order, ends in, and its trace is the refresh of the price,
  the header, the events of the tokens before, the failed read with its error line, the
  events of the tokens after, each handled as if the failing token were absent, then the
  blank line and the sleep.
\<close>

theorem token_failure_is_contained:
  "(\<forall>item \<in> set TOKENS.
      (\<exists>pre post.
         snd (cycle wallet s w) =
           pre @ snd (fetch_price wallet (fst item) (snd item) (mon_usd (fst (refresh_price s w)))
                        (market_w w (fst item))) @ post) \<and>
      (\<forall>exc. fst (fetch_price wallet (fst item) (snd item) (mon_usd (fst (refresh_price s w)))
                     (market_w w (fst item))) = Inl exc \<longrightarrow>
             Print (Msg_token_error (fst item) exc) \<in> set (snd (cycle wallet s w)))) \<and>
   (\<exists>tr. snd (cycle wallet s w) = tr @ [Print Msg_blank, Sleep POLL_INTERVAL]) \<and>
   length (filter (\<lambda>ev. ev = Sleep POLL_INTERVAL) (snd (run wallet s ws))) = length ws \<and>
   (\<forall>st item exc.
      fst (fetch_price wallet (fst item) (snd item) (mon_usd st) (market_w w (fst item))) = Inl exc
      \<longrightarrow>
      process_token wallet w st item =
        (st, snd (fetch_price wallet (fst item) (snd item) (mon_usd st) (market_w w (fst item)))
             @ [Print (Msg_token_error (fst item) exc)])) \<and>
   (\<forall>xs item ys exc.
      TOKENS = xs @ item # ys \<and>
      fst (fetch_price wallet (fst item) (snd item) (mon_usd (fst (refresh_price s w)))
             (market_w w (fst item))) = Inl exc
      \<longrightarrow>
      cycle wallet s w =
        (fst (for_tokens wallet w (fst (refresh_price s w)) (xs @ ys)),
         snd (refresh_price s w)
           @ [Print (Msg_cycle (mon_usd (fst (refresh_price s w))))]
           @ snd (for_tokens wallet w (fst (refresh_price s w)) xs)
           @ snd (fetch_price wallet (fst item) (snd item) (mon_usd (fst (refresh_price s w)))
                    (market_w w (fst item)))
           @ [Print (Msg_token_error (fst item) exc)]
           @ snd (for_tokens wallet w
                    (fst (for_tokens wallet w (fst (refresh_price s w)) xs)) ys)
           @ [Print Msg_blank, Sleep POLL_INTERVAL]) \<and>
      snd (for_tokens wallet w (fst (refresh_price s w)) (xs @ ys)) =
        snd (for_tokens wallet w (fst (refresh_price s w)) xs)
          @ snd (for_tokens wallet w
                   (fst (for_tokens wallet w (fst (refresh_price s w)) xs)) ys))"
proof (intro conjI ballI allI impI)
  fix item
  assume i: "item \<in> set TOKENS"
  obtain s1 tr1 where r: "refresh_price s w = (s1, tr1)"
    by (cases "refresh_price s w")
  obtain s2 tr2 where f: "for_tokens wallet w s1 TOKENS = (s2, tr2)"
    by (cases "for_tokens wallet w s1 TOKENS")
  let ?fetch = "fetch_price wallet (fst item) (snd item) (mon_usd s1) (market_w w (fst item))"
  from for_tokens_reads_each [OF i, of wallet w s1] f obtain pre post where
    t: "tr2 = pre @ snd ?fetch @ post"
       "\<forall>exc. fst ?fetch = Inl exc \<longrightarrow> Print (Msg_token_error (fst item) exc) \<in> set tr2"
    by auto
  have c: "snd (cycle wallet s w) =
             tr1 @ [Print (Msg_cycle (mon_usd s1))] @ tr2 @ [Print Msg_blank, Sleep POLL_INTERVAL]"
    using r f by (simp add: cycle_def)
  show "\<exists>pre post.
         snd (cycle wallet s w) =
           pre @ snd (fetch_price wallet (fst item) (snd item) (mon_usd (fst (refresh_price s w)))
                        (market_w w (fst item))) @ post"
    using c t(1) r
    by (intro exI [of _ "tr1 @ [Print (Msg_cycle (mon_usd s1))] @ pre"]
          exI [of _ "post @ [Print Msg_blank, Sleep POLL_INTERVAL]"]) simp
  fix exc
  assume "fst (fetch_price wallet (fst item) (snd item) (mon_usd (fst (refresh_price s w)))
                     (market_w w (fst item))) = Inl exc"
  then show "Print (Msg_token_error (fst item) exc) \<in> set (snd (cycle wallet s w))"
    using c t(2) r by simp
next
  show "\<exists>tr. snd (cycle wallet s w) = tr @ [Print Msg_blank, Sleep POLL_INTERVAL]"
    by (auto simp: cycle_def split: prod.splits)
next
  show "length (filter (\<lambda>ev. ev = Sleep POLL_INTERVAL) (snd (run wallet s ws))) = length ws"
    by (rule run_sleeps)
next
  fix st :: state and item exc
  assume "fst (fetch_price wallet (fst item) (snd item) (mon_usd st) (market_w w (fst item))) =
            Inl exc"
  then show "process_token wallet w st item =
        (st, snd (fetch_price wallet (fst item) (snd item) (mon_usd st) (market_w w (fst item)))
             @ [Print (Msg_token_error (fst item) exc)])"
    by (rule process_token_failed_read)
next
  fix xs item ys exc
  assume a: "TOKENS = xs @ item # ys \<and>
      fst (fetch_price wallet (fst item) (snd item) (mon_usd (fst (refresh_price s w)))
             (market_w w (fst item))) = Inl exc"
  then show "cycle wallet s w =
        (fst (for_tokens wallet w (fst (refresh_price s w)) (xs @ ys)),
         snd (refresh_price s w)
           @ [Print (Msg_cycle (mon_usd (fst (refresh_price s w))))]
           @ snd (for_tokens wallet w (fst (refresh_price s w)) xs)
           @ snd (fetch_price wallet (fst item) (snd item) (mon_usd (fst (refresh_price s w)))
                    (market_w w (fst item)))
           @ [Print (Msg_token_error (fst item) exc)]
           @ snd (for_tokens wallet w
                    (fst (for_tokens wallet w (fst (refresh_price s w)) xs)) ys)
           @ [Print Msg_blank, Sleep POLL_INTERVAL])"
    by (intro cycle_skips_failed_read) simp_all
  show "snd (for_tokens wallet w (fst (refresh_price s w)) (xs @ ys)) =
        snd (for_tokens wallet w (fst (refresh_price s w)) xs)
          @ snd (for_tokens wallet w
                   (fst (for_tokens wallet w (fst (refresh_price s w)) xs)) ys)"
    by (simp add: for_tokens_append [of wallet w _ xs])
qed

theorem token_failure_is_contained_witness:
  "(''FIRE'', FIRE) \<in> set TOKENS \<and> (''MONA'', MONA) \<in> set TOKENS \<and>
   TOKENS = [(''TCG'', TCG)] @ (''FIRE'', FIRE) # [(''MONA'', MONA)] \<and>
   fst (fetch_price ''0xWallet'' ''FIRE'' FIRE
          (mon_usd (fst (refresh_price initial_state fire_down_cycle)))
          (market_w fire_down_cycle ''FIRE'')) = Inl (Exception ''execution reverted'') \<and>
   Print (Msg_token_error ''FIRE'' (Exception ''execution reverted''))
     \<in> set (snd (cycle ''0xWallet'' initial_state fire_down_cycle)) \<and>
   (\<exists>pre post.
      snd (cycle ''0xWallet'' initial_state fire_down_cycle) =
        pre @ snd (fetch_price ''0xWallet'' ''MONA'' MONA
                     (mon_usd (fst (refresh_price initial_state fire_down_cycle)))
                     (market_w fire_down_cycle ''MONA'')) @ post) \<and>
   length (filter (\<lambda>ev. ev = Sleep POLL_INTERVAL)
             (snd (run ''0xWallet'' initial_state [fire_down_cycle, fire_down_cycle]))) = 2 \<and>
   process_token ''0xWallet'' fire_down_cycle (fst (refresh_price initial_state fire_down_cycle))
       (''FIRE'', FIRE) =
     (fst (refresh_price initial_state fire_down_cycle),
      snd (fetch_price ''0xWallet'' ''FIRE'' FIRE
             (mon_usd (fst (refresh_price initial_state fire_down_cycle)))
             (market_w fire_down_cycle ''FIRE''))
        @ [Print (Msg_token_error ''FIRE'' (Exception ''execution reverted''))]) \<and>
   cycle ''0xWallet'' initial_state fire_down_cycle =
     (fst (for_tokens ''0xWallet'' fire_down_cycle
             (fst (refresh_price initial_state fire_down_cycle))
             ([(''TCG'', TCG)] @ [(''MONA'', MONA)])),
      snd (refresh_price initial_state fire_down_cycle)
        @ [Print (Msg_cycle (mon_usd (fst (refresh_price initial_state fire_down_cycle))))]
        @ snd (for_tokens ''0xWallet'' fire_down_cycle
                 (fst (refresh_price initial_state fire_down_cycle)) [(''TCG'', TCG)])
        @ snd (fetch_price ''0xWallet'' ''FIRE'' FIRE
                 (mon_usd (fst (refresh_price initial_state fire_down_cycle)))
                 (market_w fire_down_cycle ''FIRE''))
        @ [Print (Msg_token_error ''FIRE'' (Exception ''execution reverted''))]
        @ snd (for_tokens ''0xWallet'' fire_down_cycle
                 (fst (for_tokens ''0xWallet'' fire_down_cycle
                         (fst (refresh_price initial_state fire_down_cycle)) [(''TCG'', TCG)]))
                 [(''MONA'', MONA)])
        @ [Print Msg_blank, Sleep POLL_INTERVAL]) \<and>
   tcg_sold (fst (cycle ''0xWallet'' initial_state fire_down_cycle))"
proof -
  have h1: "(''FIRE'', FIRE) \<in> set TOKENS" and h2: "(''MONA'', MONA) \<in> set TOKENS"
    and h0: "TOKENS = [(''TCG'', TCG)] @ (''FIRE'', FIRE) # [(''MONA'', MONA)]"
    by (simp_all add: TOKENS_def)
  have h3: "fst (fetch_price ''0xWallet'' (fst (''FIRE'', FIRE)) (snd (''FIRE'', FIRE))
          (mon_usd (fst (refresh_price initial_state fire_down_cycle)))
          (market_w fire_down_cycle (fst (''FIRE'', FIRE)))) = Inl (Exception ''execution reverted'')"
    by (simp add: fire_down_cycle_def fetch_fire_down)
  note c = token_failure_is_contained
             [of "''0xWallet''" initial_state fire_down_cycle "[fire_down_cycle, fire_down_cycle]"]
  note reads = c [THEN conjunct1]
  note sleeps = c [THEN conjunct2, THEN conjunct2, THEN conjunct1]
  note skip = c [THEN conjunct2, THEN conjunct2, THEN conjunct2, THEN conjunct1]
  note rest = c [THEN conjunct2, THEN conjunct2, THEN conjunct2, THEN conjunct2]
  from reads [THEN bspec, OF h1, THEN conjunct2, THEN spec, THEN mp, OF h3]
  have "Print (Msg_token_error ''FIRE'' (Exception ''execution reverted''))
     \<in> set (snd (cycle ''0xWallet'' initial_state fire_down_cycle))"
    by (simp only: fst_conv snd_conv)
  moreover from reads [THEN bspec, OF h2, THEN conjunct1] have "\<exists>pre post.
      snd (cycle ''0xWallet'' initial_state fire_down_cycle) =
        pre @ snd (fetch_price ''0xWallet'' ''MONA'' MONA
                     (mon_usd (fst (refresh_price initial_state fire_down_cycle)))
                     (market_w fire_down_cycle ''MONA'')) @ post"
    by (simp only: fst_conv snd_conv)
  moreover from sleeps have "length (filter (\<lambda>ev. ev = Sleep POLL_INTERVAL)
             (snd (run ''0xWallet'' initial_state [fire_down_cycle, fire_down_cycle]))) = 2"
    by simp
  moreover from skip [THEN spec, THEN spec, THEN spec, THEN mp, OF h3]
  have "process_token ''0xWallet'' fire_down_cycle
          (fst (refresh_price initial_state fire_down_cycle)) (''FIRE'', FIRE) =
     (fst (refresh_price initial_state fire_down_cycle),
      snd (fetch_price ''0xWallet'' ''FIRE'' FIRE
             (mon_usd (fst (refresh_price initial_state fire_down_cycle)))
             (market_w fire_down_cycle ''FIRE''))
        @ [Print (Msg_token_error ''FIRE'' (Exception ''execution reverted''))])"
    by (simp only: fst_conv snd_conv)
  moreover from rest [THEN spec, THEN spec, THEN spec, THEN spec, THEN mp, OF conjI [OF h0 h3],
      THEN conjunct1]
  have "cycle ''0xWallet'' initial_state fire_down_cycle =
     (fst (for_tokens ''0xWallet'' fire_down_cycle
             (fst (refresh_price initial_state fire_down_cycle))
             ([(''TCG'', TCG)] @ [(''MONA'', MONA)])),
      snd (refresh_price initial_state fire_down_cycle)
        @ [Print (Msg_cycle (mon_usd (fst (refresh_price initial_state fire_down_cycle))))]
        @ snd (for_tokens ''0xWallet'' fire_down_cycle
                 (fst (refresh_price initial_state fire_down_cycle)) [(''TCG'', TCG)])
        @ snd (fetch_price ''0xWallet'' ''FIRE'' FIRE
                 (mon_usd (fst (refresh_price initial_state fire_down_cycle)))
                 (market_w fire_down_cycle ''FIRE''))
        @ [Print (Msg_token_error ''FIRE'' (Exception ''execution reverted''))]
        @ snd (for_tokens ''0xWallet'' fire_down_cycle
                 (fst (for_tokens ''0xWallet'' fire_down_cycle
                         (fst (refresh_price initial_state fire_down_cycle)) [(''TCG'', TCG)]))
                 [(''MONA'', MONA)])
        @ [Print Msg_blank, Sleep POLL_INTERVAL])"
    by (simp only: fst_conv snd_conv)
  moreover from h3 have "fst (fetch_price ''0xWallet'' ''FIRE'' FIRE
          (mon_usd (fst (refresh_price initial_state fire_down_cycle)))
          (market_w fire_down_cycle ''FIRE'')) = Inl (Exception ''execution reverted'')"
    by (simp only: fst_conv snd_conv)
  moreover note h0 h1 h2 fire_down_cycle_sold [of "''0xWallet''"]
  ultimately show ?thesis
    by (intro conjI)
qed

end
